theory Spec2Isabelle
  imports Main "HOL-Library.AList" "HOL-Library.Multiset" "HOL-Library.Sublist"
begin

section \<open>Errors\<close>

text \<open>
  Go's \<open>error\<close> interface, as far as the compiler driver and the plugin executor
  build and inspect its values:
  \<^item> \<open>ErrorString s\<close>: an error known only by its text (\<open>errors.New(s)\<close>,
    \<open>fmt.Errorf\<close> without \<open>%w\<close>, or an error of a library);
  \<^item> \<open>WrapError msg err\<close>: what \<open>fmt.Errorf\<close> with one \<open>%w\<close> verb returns, the
    formatted text together with the wrapped error;
  \<^item> \<open>GeneratorError GenName DocName Msg\<close>: the struct \<open>gen.GeneratorError\<close>.

  The text that \<open>gen.GeneratorError\<close> renders is declared in package \<open>gen\<close>; it is
  the parameter \<open>gtext\<close> of the method \<open>Error\<close>.
\<close>

datatype error =
    ErrorString string
  | WrapError string error
  | GeneratorError string string string

fun Error :: "(string \<Rightarrow> string \<Rightarrow> string \<Rightarrow> string) \<Rightarrow> error \<Rightarrow> string" where
  "Error gtext (ErrorString s) = s"
| "Error gtext (WrapError msg err) = msg"
| "Error gtext (GeneratorError g d m) = gtext g d m"

fun Unwrap :: "error \<Rightarrow> error option" where
  "Unwrap (WrapError msg err) = Some err"
| "Unwrap (ErrorString s) = None"
| "Unwrap (GeneratorError g d m) = None"


section \<open>Documents and the wire protocol\<close>

text \<open>
  \<open>ast.Document\<close>: the driver and the executor read its \<open>Name\<close> only; the type
  declarations stand for the rest of the tree.
\<close>

record Document =
  Name :: string
  Types :: "string list"

text \<open>The messages of the plugin protocol (\<open>Request\<close>, \<open>Response\<close>, \<open>Response.File\<close>).\<close>

record Request =
  FileToGenerate :: "string list"
  Parameter :: string
  Documents :: "Document list"

record File =
  File_Name :: string
  Content :: string

record Response =
  Response_Error :: string
  File :: "File list"


section \<open>The plugin executor\<close>

text \<open>
  \<open>exec.Cmd\<close>: the executable to run and what is fed to its standard input.
\<close>

record Cmd =
  Path :: string
  Stdin :: string

definition CommandContext :: "string \<Rightarrow> Cmd" where
  "CommandContext name = \<lparr>Path = name, Stdin = []\<rparr>"

text \<open>
  The struct \<open>plugin.Generator\<close>. \<open>lookOnce\<close> is the \<open>sync.Once\<close>: \<open>True\<close> once
  its function has run.
\<close>

record Generator =
  Cmd :: "Cmd option"
  Generator_Name :: string
  Prefix :: string
  lookOnce :: bool
  path :: string
  lookPathErr :: "error option"

text \<open>
  What a call leaves behind outside the generator: the names handed to
  \<open>exec.LookPath\<close>, oldest first, and what happened to output files. A handle is
  numbered by the count of files opened before it.
\<close>

datatype event = Opened nat string | Wrote nat string | Closed nat

record world =
  lookups :: "string list"
  events :: "event list"

fun isOpened :: "event \<Rightarrow> bool" where
  "isOpened (Opened h n) = True"
| "isOpened (Wrote h c) = False"
| "isOpened (Closed h) = False"

definition nextHandle :: "world \<Rightarrow> nat" where
  "nextHandle w = length (filter isOpened (events w))"

text \<open>
  The functions of other packages that \<open>Generate\<close> calls: the JSON and protocol-buffer
  codecs, the search path, the subprocess (its captured standard output and the error of
  \<open>Run\<close>), and the output context of package \<open>gen\<close> with the writer it hands out.
\<close>

record 'o plugin_env =
  json_Marshal :: "'o \<Rightarrow> error + string"
  exec_LookPath :: "string \<Rightarrow> string \<times> error option"
  proto_Marshal :: "Request \<Rightarrow> error + string"
  Cmd_Run :: "Cmd \<Rightarrow> string \<times> error option"
  proto_Unmarshal :: "string \<Rightarrow> error + Response"
  Context_Open :: "string \<Rightarrow> error option"
  Writer_Write :: "string \<Rightarrow> string \<Rightarrow> error option"

text \<open>The loop over \<open>resp.File\<close>: open, write, next; the first error ends it.\<close>

fun writeFiles :: "'o plugin_env \<Rightarrow> File list \<Rightarrow> world \<Rightarrow> error option \<times> world" where
  "writeFiles E [] w = (None, w)"
| "writeFiles E (f # fs) w =
     (case Context_Open E (File_Name f) of
        Some ferr \<Rightarrow> (Some ferr, w)
      | None \<Rightarrow>
          (let h = nextHandle w;
               w1 = w\<lparr>events := events w @ [Opened h (File_Name f)]\<rparr>
           in case Writer_Write E (File_Name f) (Content f) of
                Some err \<Rightarrow> (Some err, w1)
              | None \<Rightarrow> writeFiles E fs (w1\<lparr>events := events w1 @ [Wrote h (Content f)]\<rparr>)))"

text \<open>\<open>g.lookOnce.Do(...)\<close>: the lookup runs unless it has run before.\<close>

definition lookOnce_Do :: "'o plugin_env \<Rightarrow> Generator \<Rightarrow> world \<Rightarrow> Generator \<times> world" where
  "lookOnce_Do E g w =
     (if lookOnce g then (g, w)
      else (let pluginName = Prefix g @ Generator_Name g;
                r = exec_LookPath E pluginName
            in (g\<lparr>lookOnce := True, path := fst r, lookPathErr := snd r\<rparr>,
                w\<lparr>lookups := lookups w @ [pluginName]\<rparr>)))"

text \<open>
  The command that is run: the one the caller has set in the embedded \<open>*exec.Cmd\<close>, or
  else \<open>exec.CommandContext(ctx, g.path)\<close>, reading the request \<open>b\<close> on its standard
  input.
\<close>

definition configureCmd :: "Generator \<Rightarrow> string \<Rightarrow> Cmd" where
  "configureCmd g b =
     (case Cmd g of None \<Rightarrow> CommandContext (path g) | Some c \<Rightarrow> c)\<lparr>Stdin := b\<rparr>"

text \<open>
  The body of \<open>Generate\<close>: the value of \<open>err\<close> when the body returns. A context that
  is cancelled shows as the error of \<open>Run\<close>.
\<close>

definition Generate_body ::
  "'o plugin_env \<Rightarrow> Generator \<Rightarrow> world \<Rightarrow> Document \<Rightarrow> 'o \<Rightarrow> error option \<times> Generator \<times> world" where
  "Generate_body E g w doc opts =
     (case json_Marshal E opts of
        Inl err \<Rightarrow> (Some err, g, w)
      | Inr b \<Rightarrow>
          (case lookOnce_Do E g w of (g1, w1) \<Rightarrow>
             (case lookPathErr g1 of
                Some err \<Rightarrow> (Some err, g1, w1)
              | None \<Rightarrow>
                  (case proto_Marshal E \<lparr>FileToGenerate = [Name doc], Parameter = b, Documents = [doc]\<rparr> of
                     Inl perr \<Rightarrow> (Some perr, g1, w1)
                   | Inr b' \<Rightarrow>
                       (let r = Cmd_Run E (configureCmd g1 b');
                            g2 = g1\<lparr>Cmd := None\<rparr>
                        in case snd r of
                             Some err \<Rightarrow> (Some err, g2, w1)
                           | None \<Rightarrow>
                               (case proto_Unmarshal E (fst r) of
                                  Inl err \<Rightarrow> (Some err, g2, w1)
                                | Inr resp \<Rightarrow>
                                    if Response_Error resp \<noteq> []
                                    then (Some (ErrorString (Response_Error resp)), g2, w1)
                                    else (case writeFiles E (File resp) w1 of
                                            (err, w2) \<Rightarrow> (err, g2, w2))))))))"

text \<open>The deferred function of \<open>Generate\<close>: it rewrites a non-nil \<open>err\<close>.\<close>

definition Generate_deferred ::
  "(string \<Rightarrow> string \<Rightarrow> string \<Rightarrow> string) \<Rightarrow> Generator \<Rightarrow> Document \<Rightarrow> error option \<Rightarrow> error option" where
  "Generate_deferred gtext g doc err =
     (case err of
        None \<Rightarrow> None
      | Some e \<Rightarrow> Some (GeneratorError (Prefix g @ Generator_Name g) (Name doc) (Error gtext e)))"

definition Generate ::
  "(string \<Rightarrow> string \<Rightarrow> string \<Rightarrow> string) \<Rightarrow> 'o plugin_env \<Rightarrow> Generator \<Rightarrow> world \<Rightarrow> Document \<Rightarrow> 'o
     \<Rightarrow> error option \<times> Generator \<times> world" where
  "Generate gtext E g w doc opts =
     (case Generate_body E g w doc opts of
        (err, g', w') \<Rightarrow> (Generate_deferred gtext g' doc err, g', w'))"


text \<open>
  A generator value as a caller makes it (\<open>&plugin.Generator{Name: n, Prefix: p}\<close>),
  and successive calls of \<open>Generate\<close> on one instance, each with its document and
  options; the results are listed in call order.
\<close>

definition NewGenerator :: "string \<Rightarrow> string \<Rightarrow> Generator" where
  "NewGenerator p n =
     \<lparr>Cmd = None, Generator_Name = n, Prefix = p, lookOnce = False, path = [], lookPathErr = None\<rparr>"

fun Generate_calls ::
  "(string \<Rightarrow> string \<Rightarrow> string \<Rightarrow> string) \<Rightarrow> 'o plugin_env \<Rightarrow> Generator \<Rightarrow> world \<Rightarrow> (Document \<times> 'o) list
     \<Rightarrow> error option list \<times> Generator \<times> world" where
  "Generate_calls gtext E g w [] = ([], g, w)"
| "Generate_calls gtext E g w (c # cs) =
     (case Generate gtext E g w (fst c) (snd c) of
        (r, g1, w1) \<Rightarrow>
          (case Generate_calls gtext E g1 w1 cs of
             (rs, g2, w2) \<Rightarrow> (r # rs, g2, w2)))"

definition encodes :: "'o plugin_env \<Rightarrow> 'o \<Rightarrow> bool" where
  "encodes E opts = (case json_Marshal E opts of Inl err \<Rightarrow> False | Inr b \<Rightarrow> True)"

fun isClosed :: "event \<Rightarrow> bool" where
  "isClosed (Closed h) = True"
| "isClosed (Opened h n) = False"
| "isClosed (Wrote h c) = False"

fun openedNames :: "event list \<Rightarrow> string list" where
  "openedNames [] = []"
| "openedNames (Opened h n # evs) = n # openedNames evs"
| "openedNames (Wrote h c # evs) = openedNames evs"
| "openedNames (Closed h # evs) = openedNames evs"


section \<open>The output context\<close>

text \<open>
  Path components of a \<open>/\<close>-separated name: \<open>a/../b\<close> has the components \<open>a\<close>,
  \<open>..\<close> and \<open>b\<close>.
\<close>

fun components :: "string \<Rightarrow> string list" where
  "components [] = [Nil]"
| "components (c # cs) =
     (if c = CHR ''/'' then [] # components cs
      else (case components cs of
              [] \<Rightarrow> [c # Nil]
            | s # ss \<Rightarrow> (c # s) # ss))"

definition isAbs :: "string \<Rightarrow> bool" where
  "isAbs n = (case n of [] \<Rightarrow> False | c # cs \<Rightarrow> c = CHR ''/'')"

definition unsafeName :: "string \<Rightarrow> bool" where
  "unsafeName n = (isAbs n \<or> ''.'' \<in> set (components n) \<or> ''..'' \<in> set (components n))"

text \<open>
  Modelled from the spec: the error kind \<open>InvalidPath\<close> (unsafe output file name) of the
  Output Context, whose package \<open>gen\<close> is not among the sources. The spec gives the kind
  and no text; the name of the kind stands for the text.
\<close>

definition InvalidPath :: error where
  "InvalidPath = ErrorString ''InvalidPath''"

text \<open>
  Modelled from the spec: the operation \<open>open\<close> of the Output Context
  (\<open>gen.Context(ctx).Open\<close>; package \<open>gen\<close> is not among the sources). The spec:
  \<open>open(relativeName)\<close> fails with \<open>InvalidPath\<close> if \<open>relativeName\<close> is absolute,
  contains \<open>..\<close> path segments, or uses a disallowed separator; file names returned in
  a Response must be relative, \<open>/\<close>-separated, and must not contain \<open>.\<close> or \<open>..\<close>
  path components, and violating this is an \<open>InvalidPath\<close> error. Any other failure is
  that of the file system underneath: \<open>fs\<close> gives the error of creating the directory
  or opening the file, if any.
\<close>

definition OutputContext_open :: "(string \<Rightarrow> error option) \<Rightarrow> string \<Rightarrow> error option" where
  "OutputContext_open fs relativeName =
     (if unsafeName relativeName \<or> CHR 0x5C \<in> set relativeName then Some InvalidPath
      else fs relativeName)"


section \<open>The command line\<close>

text \<open>
  What a call can do besides returning: panic. The value given to \<open>panic\<close> is an
  interface value: \<open>nil\<close>, an error, or some other value. \<open>recover\<close> in a deferred
  function yields the value the panic was raised with, so for \<open>panic(nil)\<close> it yields
  \<open>nil\<close>, as it does when there is no panic (the Go releases before 1.21, those of
  these sources).
\<close>

datatype 'v panic_value = PanicNil | PanicError error | PanicOther 'v

datatype ('a, 'v) outcome = Returns 'a | Panics "'v panic_value"

text \<open>
  The embedded \<open>cobra.Command\<close>: \<open>SetArgs\<close> stores the arguments that \<open>Execute\<close>
  parses. \<open>Execute\<close> itself belongs to the library and is a parameter of \<open>Run\<close>.
\<close>

record Command =
  Command_args :: "string list"

definition SetArgs :: "Command \<Rightarrow> string list \<Rightarrow> Command" where
  "SetArgs c a = c\<lparr>Command_args := a\<rparr>"

definition wrapPanic :: "(string \<Rightarrow> string \<Rightarrow> string \<Rightarrow> string) \<Rightarrow> error \<Rightarrow> string \<Rightarrow> error" where
  "wrapPanic gtext err stack =
     WrapError (''gqlc: recovered from unexpected panic: '' @ Error gtext err
                  @ [CHR 0x0A, CHR 0x0A] @ stack) err"

text \<open>
  The run-time panic of the slice expression \<open>args[1:]\<close> on an empty slice; it is a
  \<open>runtime.Error\<close>, hence an error.
\<close>

definition boundsError :: error where
  "boundsError = ErrorString ''runtime error: slice bounds out of range [1:0]''"

text \<open>The two statements of \<open>Run\<close> after the \<open>defer\<close>.\<close>

definition Run_body ::
  "(Command \<Rightarrow> (error option, 'v) outcome) \<Rightarrow> Command \<Rightarrow> string list \<Rightarrow> (error option, 'v) outcome" where
  "Run_body Execute c args =
     (case args of
        [] \<Rightarrow> Panics (PanicError boundsError)
      | a # rest \<Rightarrow> Execute (SetArgs c rest))"

text \<open>
  \<open>debug.Stack()\<close> of the Go runtime: the formatted trace of the goroutine that calls
  it, which is the header line of that goroutine, with its number \<open>gid\<close>, followed by
  the lines \<open>frames\<close> of its call frames.
\<close>

definition debug_Stack :: "string \<Rightarrow> string \<Rightarrow> string" where
  "debug_Stack gid frames = ''goroutine '' @ gid @ '' [running]:'' @ [CHR 0x0A] @ frames"

text \<open>
  \<open>Run\<close> with its deferred function, which runs when the body has returned or
  panicked in the goroutine of \<open>Run\<close>. \<open>stack\<close> is what \<open>debug.Stack()\<close> returns there
  and \<open>goSyntax\<close> the rendering of a value by the verb \<open>%#v\<close>. When the body panics,
  the named result \<open>err\<close> is still \<open>nil\<close>; the deferred function assigns it only if the
  recovered value \<open>r\<close> is not \<open>nil\<close>.
\<close>

definition Run ::
  "(string \<Rightarrow> string \<Rightarrow> string \<Rightarrow> string) \<Rightarrow> ('v \<Rightarrow> string) \<Rightarrow> string
     \<Rightarrow> (Command \<Rightarrow> (error option, 'v) outcome) \<Rightarrow> Command \<Rightarrow> string list
     \<Rightarrow> (error option, 'v) outcome" where
  "Run gtext goSyntax stack Execute c args =
     (case Run_body Execute c args of
        Returns err \<Rightarrow> Returns err
      | Panics r \<Rightarrow>
          (case r of
             PanicNil \<Rightarrow> Returns None
           | PanicError rerr \<Rightarrow> Returns (Some (wrapPanic gtext rerr stack))
           | PanicOther v \<Rightarrow> Returns (Some (wrapPanic gtext (ErrorString (goSyntax v)) stack))))"


section \<open>The compiler driver\<close>

text \<open>
  A flag of the command as \<open>VisitAll\<close> presents it, and the parser's mode.
\<close>

record Flag =
  Flag_Name :: string
  Changed :: bool

datatype Mode = NoMode | ParseComments

text \<open>
  What \<open>runRoot\<close> uses from outside: the table \<open>geners\<close> of package \<open>main\<close> that binds
  a flag name to a generator, the file system, the parser with the document set it
  shares between the files, the type checker, and \<open>Generate\<close> of a generator, which
  acts on the outside world \<open>'w\<close>.
\<close>

record ('g, 'f, 's, 'w) root_env =
  geners :: "string \<Rightarrow> 'g option"
  filepath_Abs :: "string \<Rightarrow> error + string"
  os_Open :: "string \<Rightarrow> error + 'f"
  NewDocSet :: "'s"
  parser_ParseDoc :: "'s \<Rightarrow> string \<Rightarrow> 'f \<Rightarrow> Mode \<Rightarrow> (error + Document) \<times> 's"
  util_CheckTypes :: "(string \<times> Document) list \<Rightarrow> error list"
  CodeGenerator_Generate :: "'g \<Rightarrow> Document \<Rightarrow> string \<Rightarrow> 'w \<Rightarrow> error option \<times> 'w"

text \<open>
  Modelled from the spec: the order in which \<open>cmd.LocalFlags().VisitAll\<close> presents the
  flags. It is decided by the flag library and by the code that registers the flags of
  the generators, neither of which is among the sources. The spec: the Registry must
  preserve the textual order in which generators were registered, for a deterministic
  generator-invocation order when multiple generators are active in one run. So the
  flags are presented in the order in which they were registered, the order of the list
  \<open>registered\<close>.
\<close>

definition LocalFlags_VisitAll :: "Flag list \<Rightarrow> Flag list" where
  "LocalFlags_VisitAll registered = registered"

text \<open>
  The function given to \<open>VisitAll\<close>, over the flags in the order they are visited:
  a changed flag found in \<open>geners\<close> appends its generator to \<open>gs\<close>.
\<close>

fun selectGenerators ::
  "('g, 'f, 's, 'w) root_env \<Rightarrow> Flag list \<Rightarrow> Mode \<times> 'g list \<Rightarrow> Mode \<times> 'g list" where
  "selectGenerators E [] acc = acc"
| "selectGenerators E (f # fs) acc =
     (if \<not> Changed f then selectGenerators E fs acc
      else (case geners E (Flag_Name f) of
              None \<Rightarrow> selectGenerators E fs acc
            | Some gen \<Rightarrow>
                selectGenerators E fs
                  (if Flag_Name f = ''doc_out'' then ParseComments else fst acc, snd acc @ [gen])))"

text \<open>
  The loop over the file names. \<open>docs\<close> is the map from document name to document,
  kept as a list of entries with distinct keys: \<open>docs[doc.Name] = doc\<close> replaces the
  entry of that name or adds one. \<open>err\<close> is the named result of \<open>runRoot\<close>: in the loop
  only \<open>filepath.Abs\<close> assigns it, since the two \<open>:=\<close> that follow declare an \<open>err\<close>
  of the loop body. \<open>Inl\<close> is a \<open>return err\<close> out of the loop.
\<close>

fun parseFiles ::
  "('g, 'f, 's, 'w) root_env \<Rightarrow> Mode \<Rightarrow> string list \<Rightarrow> 's \<Rightarrow> error option \<Rightarrow> (string \<times> Document) list
     \<Rightarrow> error + (error option \<times> (string \<times> Document) list)" where
  "parseFiles E mode [] dset err docs = Inr (err, docs)"
| "parseFiles E mode (filename # rest) dset err docs =
     (case filepath_Abs E filename of
        Inl e \<Rightarrow> Inl e
      | Inr filename' \<Rightarrow>
          (case os_Open E filename' of
             Inl e \<Rightarrow> Inl e
           | Inr f \<Rightarrow>
               (case parser_ParseDoc E dset filename' f mode of
                  (Inl e, dset') \<Rightarrow> Inl e
                | (Inr doc, dset') \<Rightarrow>
                    parseFiles E mode rest dset' None (AList.update (Name doc) doc docs))))"

text \<open>
  The inner loop \<open>for _, doc := range docs\<close> for one generator, over the documents in
  the order the iteration yields them. The result is \<open>err\<close>, whether the loop returned
  from \<open>runRoot\<close>, the world, and the calls of \<open>Generate\<close> made, oldest first.
\<close>

fun runDocs ::
  "('g, 'f, 's, 'w) root_env \<Rightarrow> 'g \<Rightarrow> Document list \<Rightarrow> error option \<Rightarrow> 'w
     \<Rightarrow> error option \<times> bool \<times> 'w \<times> ('g \<times> Document) list" where
  "runDocs E g [] err w = (err, False, w, [])"
| "runDocs E g (doc # ds) err w =
     (case CodeGenerator_Generate E g doc [] w of
        (Some e, w1) \<Rightarrow> (Some e, True, w1, [(g, doc)])
      | (None, w1) \<Rightarrow>
          (case runDocs E g ds None w1 of
             (err', returned, w2, calls) \<Rightarrow> (err', returned, w2, (g, doc) # calls)))"

text \<open>
  The outer loop \<open>for _, g := range gs\<close>. Go leaves the iteration order of a map
  unspecified, and each \<open>range\<close> statement may take another one: \<open>rng i\<close> is the order
  in which the \<open>i\<close>-th \<open>range docs\<close> of the run yields the entries.
\<close>

fun runGenerators ::
  "('g, 'f, 's, 'w) root_env \<Rightarrow> (nat \<Rightarrow> (string \<times> Document) list \<Rightarrow> (string \<times> Document) list)
     \<Rightarrow> nat \<Rightarrow> 'g list \<Rightarrow> (string \<times> Document) list \<Rightarrow> error option \<Rightarrow> 'w
     \<Rightarrow> error option \<times> 'w \<times> ('g \<times> Document) list" where
  "runGenerators E rng i [] docs err w = (err, w, [])"
| "runGenerators E rng i (g # gs) docs err w =
     (case runDocs E g (map snd (rng i docs)) err w of
        (err1, returned, w1, calls) \<Rightarrow>
          if returned then (err1, w1, calls)
          else (case runGenerators E rng (Suc i) gs docs err1 w1 of
                  (err2, w2, calls') \<Rightarrow> (err2, w2, calls @ calls')))"

text \<open>
  \<open>runRoot\<close>: its result \<open>err\<close>, the world it leaves and the calls of \<open>Generate\<close> it made.
  \<open>flags\<close> are the local flags of the command in the order they were registered.
\<close>

definition runRoot ::
  "('g, 'f, 's, 'w) root_env \<Rightarrow> (nat \<Rightarrow> (string \<times> Document) list \<Rightarrow> (string \<times> Document) list)
     \<Rightarrow> Flag list \<Rightarrow> string list \<Rightarrow> 'w \<Rightarrow> error option \<times> 'w \<times> ('g \<times> Document) list" where
  "runRoot E rng flags args w =
     (case selectGenerators E (LocalFlags_VisitAll flags) (NoMode, []) of
        (mode, gs) \<Rightarrow>
          (case parseFiles E mode args (NewDocSet E) None [] of
             Inl e \<Rightarrow> (Some e, w, [])
           | Inr (err, docs) \<Rightarrow>
               if length (util_CheckTypes E docs) > 0 then (err, w, [])
               else runGenerators E rng 0 gs docs err w))"

text \<open>
  The documents the files parse to, in the order of the arguments: the same calls as in
  \<open>parseFiles\<close>, without the map.
\<close>

fun parsedDocs ::
  "('g, 'f, 's, 'w) root_env \<Rightarrow> Mode \<Rightarrow> string list \<Rightarrow> 's \<Rightarrow> error + Document list" where
  "parsedDocs E mode [] dset = Inr []"
| "parsedDocs E mode (filename # rest) dset =
     (case filepath_Abs E filename of
        Inl e \<Rightarrow> Inl e
      | Inr filename' \<Rightarrow>
          (case os_Open E filename' of
             Inl e \<Rightarrow> Inl e
           | Inr f \<Rightarrow>
               (case parser_ParseDoc E dset filename' f mode of
                  (Inl e, dset') \<Rightarrow> Inl e
                | (Inr doc, dset') \<Rightarrow>
                    (case parsedDocs E mode rest dset' of
                       Inl e \<Rightarrow> Inl e
                     | Inr ds \<Rightarrow> Inr (doc # ds)))))"


definition lastNamed :: "Document list \<Rightarrow> string \<Rightarrow> Document option" where
  "lastNamed ds n = find (\<lambda>d. Name d = n) (rev ds)"

text \<open>The calls a run makes when no call fails: generator by generator.\<close>

fun allCalls ::
  "(nat \<Rightarrow> (string \<times> Document) list \<Rightarrow> (string \<times> Document) list) \<Rightarrow> nat \<Rightarrow> 'g list
     \<Rightarrow> (string \<times> Document) list \<Rightarrow> ('g \<times> Document) list" where
  "allCalls rng i [] docs = []"
| "allCalls rng i (g # gs) docs = map (Pair g) (map snd (rng i docs)) @ allCalls rng (Suc i) gs docs"


section \<open>Sample environments\<close>

text \<open>
  A plugin \<open>gqlc-gen-demo\<close> on the search path that answers every request with
  \<open>resp\<close> and exits with status 0. Options are given as text; the options \<open>bad\<close> stand
  for a value that \<open>json.Marshal\<close> does not support. The file system opens and writes
  every file.
\<close>

definition demo_env :: "Response \<Rightarrow> string plugin_env" where
  "demo_env resp =
     \<lparr>json_Marshal = (\<lambda>opts. if opts = ''bad'' then Inl (ErrorString ''json: unsupported type'')
                              else Inr opts),
      exec_LookPath = (\<lambda>n. if n = ''gqlc-gen-demo'' then (''/usr/bin/gqlc-gen-demo'', None)
                            else ([], Some (ErrorString ''executable file not found in $PATH''))),
      proto_Marshal = (\<lambda>req. Inr (Parameter req)),
      Cmd_Run = (\<lambda>c. (''response'', None)),
      proto_Unmarshal = (\<lambda>b. Inr resp),
      Context_Open = (\<lambda>n. None),
      Writer_Write = (\<lambda>n c. None)\<rparr>"

text \<open>
  The same plugin writing through the output context of the spec, over a file system
  that opens every file; and an answer with a harmless file followed by two files that
  lie outside the output directory.
\<close>

definition demo_env_checked :: "Response \<Rightarrow> string plugin_env" where
  "demo_env_checked resp = (demo_env resp)\<lparr>Context_Open := OutputContext_open (\<lambda>n. None)\<rparr>"

definition demo_files :: "File list" where
  "demo_files = [\<lparr>File_Name = ''ok.txt'', Content = ''x''\<rparr>,
                 \<lparr>File_Name = ''../evil.txt'', Content = ''y''\<rparr>,
                 \<lparr>File_Name = ''/etc/passwd'', Content = ''z''\<rparr>]"

text \<open>
  The plugin \<open>gqlc-gen-demo\<close> in surroundings where the step named \<open>step\<close> fails:
  encoding the request (\<open>marshal\<close>), running the subprocess (\<open>run\<close>), decoding its
  output (\<open>unmarshal\<close>), opening an output file (\<open>open\<close>) or writing it (\<open>write\<close>);
  with \<open>report\<close> the plugin itself reports the failure \<open>boom\<close>. Otherwise the plugin
  answers with the one file \<open>a.txt\<close>.
\<close>

definition demo_env_failing :: "string \<Rightarrow> string plugin_env" where
  "demo_env_failing step =
     \<lparr>json_Marshal = (\<lambda>opts. if opts = ''bad'' then Inl (ErrorString ''json: unsupported type'')
                              else Inr opts),
      exec_LookPath = (\<lambda>n. if n = ''gqlc-gen-demo'' then (''/usr/bin/gqlc-gen-demo'', None)
                            else ([], Some (ErrorString ''executable file not found in $PATH''))),
      proto_Marshal = (\<lambda>req. if step = ''marshal'' then Inl (ErrorString ''proto: marshal failed'')
                              else Inr (Parameter req)),
      Cmd_Run = (\<lambda>c. if step = ''run'' then ([], Some (ErrorString ''exit status 1''))
                      else (''response'', None)),
      proto_Unmarshal = (\<lambda>b. if step = ''unmarshal'' then Inl (ErrorString ''proto: cannot parse'')
                              else Inr \<lparr>Response_Error = (if step = ''report'' then ''boom'' else []),
                                       File = [\<lparr>File_Name = ''a.txt'', Content = ''x''\<rparr>]\<rparr>),
      Context_Open = (\<lambda>n. if step = ''open'' then Some (ErrorString ''permission denied'') else None),
      Writer_Write = (\<lambda>n c. if step = ''write'' then Some (ErrorString ''disk full'') else None)\<rparr>"

definition demo_doc :: Document where
  "demo_doc = \<lparr>Name = ''test.gql'', Types = [''Query'']\<rparr>"

definition demo_world :: world where
  "demo_world = \<lparr>lookups = [], events = []\<rparr>"

definition demo_gtext :: "string \<Rightarrow> string \<Rightarrow> string \<Rightarrow> string" where
  "demo_gtext g d m = g @ '':'' @ d @ '': '' @ m"

text \<open>
  A driver with the generators \<open>doc\<close> and \<open>js\<close> bound to \<open>doc_out\<close> and \<open>js_out\<close>.
  Every file opens and parses to a document named \<open>nm\<close> of the absolute file name, the
  type checker reports \<open>errs\<close>, and a generator appends its name and the document's to
  the world.
\<close>

definition demo_root ::
  "error list \<Rightarrow> (string \<Rightarrow> string) \<Rightarrow> (string, string, nat, (string \<times> string) list) root_env" where
  "demo_root errs nm =
     \<lparr>geners = (\<lambda>n. if n = ''doc_out'' then Some ''doc''
                     else if n = ''js_out'' then Some ''js'' else None),
      filepath_Abs = (\<lambda>f. Inr (''/'' @ f)),
      os_Open = (\<lambda>f. Inr f),
      NewDocSet = 0,
      parser_ParseDoc = (\<lambda>s n f m. (Inr \<lparr>Name = nm n, Types = [f]\<rparr>, Suc s)),
      util_CheckTypes = (\<lambda>docs. errs),
      CodeGenerator_Generate = (\<lambda>g d opts w. (None, w @ [(g, Name d)]))\<rparr>"


section \<open>Properties of the plugin executor\<close>

lemma lookOnce_Do_ident:
  "Prefix (fst (lookOnce_Do E g w)) = Prefix g \<and>
   Generator_Name (fst (lookOnce_Do E g w)) = Generator_Name g"
  by (simp add: lookOnce_Do_def Let_def)

lemma Generate_body_ident:
  "Prefix (fst (snd (Generate_body E g w doc opts))) = Prefix g \<and>
   Generator_Name (fst (snd (Generate_body E g w doc opts))) = Generator_Name g"
  using lookOnce_Do_ident [of E g w]
  by (auto simp: Generate_body_def Let_def split: sum.splits prod.splits option.splits)

lemma writeFiles_lookups: "lookups (snd (writeFiles E fs w)) = lookups w"
  by (induction fs arbitrary: w) (auto simp: Let_def split: option.splits)

lemma writeFiles_lookups_eq: "writeFiles E fs w = (r, w') \<Longrightarrow> lookups w' = lookups w"
  using writeFiles_lookups [of E fs w] by simp

lemma Generate_body_unencoded:
  "json_Marshal E opts = Inl e \<Longrightarrow> Generate_body E g w doc opts = (Some e, g, w)"
  by (simp add: Generate_body_def)

lemma Generate_body_cache:
  assumes "json_Marshal E opts = Inr b"
  shows "lookOnce (fst (snd (Generate_body E g w doc opts))) = lookOnce (fst (lookOnce_Do E g w)) \<and>
         path (fst (snd (Generate_body E g w doc opts))) = path (fst (lookOnce_Do E g w)) \<and>
         lookPathErr (fst (snd (Generate_body E g w doc opts))) = lookPathErr (fst (lookOnce_Do E g w)) \<and>
         lookups (snd (snd (Generate_body E g w doc opts))) = lookups (snd (lookOnce_Do E g w))"
  using assms
  by (auto simp: Generate_body_def Let_def split: sum.splits prod.splits option.splits
           dest: writeFiles_lookups_eq)

lemma Generate_body_lookup_failed:
  assumes "json_Marshal E opts = Inr b" and "lookPathErr (fst (lookOnce_Do E g w)) = Some e"
  shows "fst (Generate_body E g w doc opts) = Some e"
  using assms by (auto simp: Generate_body_def split: prod.splits)

lemma Generate_body_reported:
  assumes "json_Marshal E opts = Inr b"
      and "lookOnce_Do E g w = (g1, w1)"
      and "lookPathErr g1 = None"
      and "proto_Marshal E \<lparr>FileToGenerate = [Name doc], Parameter = b, Documents = [doc]\<rparr> = Inr b'"
      and "Cmd_Run E (configureCmd g1 b') = (out, None)"
      and "proto_Unmarshal E out = Inr resp"
      and "Response_Error resp \<noteq> []"
  shows "Generate_body E g w doc opts = (Some (ErrorString (Response_Error resp)), g1\<lparr>Cmd := None\<rparr>, w1)"
  using assms by (simp add: Generate_body_def Let_def)

lemma lookOnce_Do_events: "events (snd (lookOnce_Do E g w)) = events w"
  by (simp add: lookOnce_Do_def Let_def)

text \<open>
  C4. A plugin that exits with status 0 and writes a well-formed \<open>Response\<close> whose
  \<open>error\<close> field is not empty makes \<open>Generate\<close> fail with the \<open>GeneratorError\<close> whose
  message is exactly that field; no output file is opened or written. The hypotheses say
  that the options encode, that the plugin is found (now or by an earlier call), that
  the request encodes, that the subprocess ends without error and that its output
  decodes to \<open>resp\<close>.
\<close>

theorem Generate_reported_error:
  assumes "json_Marshal E opts = Inr b"
      and "lookOnce_Do E g w = (g1, w1)"
      and "lookPathErr g1 = None"
      and "proto_Marshal E \<lparr>FileToGenerate = [Name doc], Parameter = b, Documents = [doc]\<rparr> = Inr b'"
      and "Cmd_Run E (configureCmd g1 b') = (out, None)"
      and "proto_Unmarshal E out = Inr resp"
      and "Response_Error resp \<noteq> []"
  shows "fst (Generate gtext E g w doc opts)
           = Some (GeneratorError (Prefix g @ Generator_Name g) (Name doc) (Response_Error resp)) \<and>
         events (snd (snd (Generate gtext E g w doc opts))) = events w"
proof -
  have body: "Generate_body E g w doc opts
                = (Some (ErrorString (Response_Error resp)), g1\<lparr>Cmd := None\<rparr>, w1)"
    using assms by (rule Generate_body_reported)
  have "Prefix g1 = Prefix g" and "Generator_Name g1 = Generator_Name g"
    using lookOnce_Do_ident [of E g w] assms(2) by simp_all
  moreover have "events w1 = events w"
    using lookOnce_Do_events [of E g w] assms(2) by simp
  ultimately show ?thesis
    using body by (simp add: Generate_def Generate_deferred_def)
qed

theorem Generate_reported_error_witness:
  "fst (Generate demo_gtext (demo_env \<lparr>Response_Error = ''boom'', File = []\<rparr>)
          (NewGenerator ''gqlc-gen-'' ''demo'') demo_world demo_doc ''{}'')
     = Some (GeneratorError ''gqlc-gen-demo'' ''test.gql'' ''boom'')"
proof -
  let ?E = "demo_env \<lparr>Response_Error = ''boom'', File = []\<rparr>"
  let ?g = "NewGenerator ''gqlc-gen-'' ''demo''"
  let ?g1 = "?g\<lparr>lookOnce := True, path := ''/usr/bin/gqlc-gen-demo'', lookPathErr := None\<rparr>"
  let ?w1 = "demo_world\<lparr>lookups := [''gqlc-gen-demo'']\<rparr>"
  have h1: "json_Marshal ?E ''{}'' = Inr ''{}''"
    by (simp add: demo_env_def)
  have h2: "lookOnce_Do ?E ?g demo_world = (?g1, ?w1)"
    by (simp add: lookOnce_Do_def demo_env_def NewGenerator_def demo_world_def Let_def)
  have h3: "lookPathErr ?g1 = None"
    by simp
  have h4: "proto_Marshal ?E \<lparr>FileToGenerate = [Name demo_doc], Parameter = ''{}'', Documents = [demo_doc]\<rparr>
              = Inr ''{}''"
    by (simp add: demo_env_def)
  have h5: "Cmd_Run ?E (configureCmd ?g1 ''{}'') = (''response'', None)"
    by (simp add: demo_env_def)
  have h6: "proto_Unmarshal ?E ''response'' = Inr \<lparr>Response_Error = ''boom'', File = []\<rparr>"
    by (simp add: demo_env_def)
  have h7: "Response_Error \<lparr>Response_Error = ''boom'', File = []\<rparr> \<noteq> []"
    by simp
  show ?thesis
    using Generate_reported_error [OF h1 h2 h3 h4 h5 h6 h7, of demo_gtext]
    by (simp add: NewGenerator_def demo_doc_def)
qed

lemma Generate_unencoded:
  "\<not> encodes E opts \<Longrightarrow> \<exists>r. Generate gtext E g w doc opts = (r, g, w)"
  by (auto simp: encodes_def Generate_def Generate_body_def split: sum.splits)

lemma Generate_cached:
  assumes "lookOnce g" and "Generate gtext E g w doc opts = (r, g', w')"
  shows "lookups w' = lookups w \<and> lookOnce g' \<and> path g' = path g \<and> lookPathErr g' = lookPathErr g \<and>
         Prefix g' = Prefix g \<and> Generator_Name g' = Generator_Name g"
proof (cases "json_Marshal E opts")
  case (Inl e)
  with assms show ?thesis
    by (simp add: Generate_def Generate_body_unencoded)
next
  case (Inr b)
  have "lookOnce_Do E g w = (g, w)"
    using assms(1) by (simp add: lookOnce_Do_def)
  with Generate_body_cache [OF Inr, of g w doc] Generate_body_ident [of E g w doc opts] assms
  show ?thesis
    by (auto simp: Generate_def split: prod.splits)
qed

lemma Generate_cached_failure:
  assumes "lookOnce g" and "lookPathErr g = Some e" and "encodes E opts"
  shows "fst (Generate gtext E g w doc opts)
           = Some (GeneratorError (Prefix g @ Generator_Name g) (Name doc) (Error gtext e))"
proof -
  obtain b where b: "json_Marshal E opts = Inr b"
    using assms(3) by (auto simp: encodes_def split: sum.splits)
  have "lookOnce_Do E g w = (g, w)"
    using assms(1) by (simp add: lookOnce_Do_def)
  with assms(2) have "fst (Generate_body E g w doc opts) = Some e"
    using Generate_body_lookup_failed [OF b, of g w e doc] by simp
  with Generate_body_ident [of E g w doc opts] show ?thesis
    by (auto simp: Generate_def Generate_deferred_def split: prod.splits)
qed

lemma Generate_first_lookup:
  assumes "\<not> lookOnce g" and "encodes E opts" and "Generate gtext E g w doc opts = (r, g', w')"
  shows "lookups w' = lookups w @ [Prefix g @ Generator_Name g] \<and> lookOnce g' \<and>
         (path g', lookPathErr g') = exec_LookPath E (Prefix g @ Generator_Name g) \<and>
         Prefix g' = Prefix g \<and> Generator_Name g' = Generator_Name g \<and>
         (\<forall>e. lookPathErr g' = Some e \<longrightarrow>
              r = Some (GeneratorError (Prefix g @ Generator_Name g) (Name doc) (Error gtext e)))"
proof -
  obtain b where b: "json_Marshal E opts = Inr b"
    using assms(2) by (auto simp: encodes_def split: sum.splits)
  let ?g1 = "fst (lookOnce_Do E g w)"
  have d: "lookOnce ?g1 \<and> (path ?g1, lookPathErr ?g1) = exec_LookPath E (Prefix g @ Generator_Name g) \<and>
           lookups (snd (lookOnce_Do E g w)) = lookups w @ [Prefix g @ Generator_Name g]"
    using assms(1) by (simp add: lookOnce_Do_def Let_def)
  have body: "Generate_body E g w doc opts = (fst (Generate_body E g w doc opts), g', w')"
    using assms(3) by (auto simp: Generate_def split: prod.splits)
  have c: "lookOnce g' = lookOnce ?g1 \<and> path g' = path ?g1 \<and> lookPathErr g' = lookPathErr ?g1 \<and>
           lookups w' = lookups (snd (lookOnce_Do E g w))"
    using Generate_body_cache [OF b, of g w doc] body by (metis fst_conv snd_conv)
  have i: "Prefix g' = Prefix g \<and> Generator_Name g' = Generator_Name g"
    using Generate_body_ident [of E g w doc opts] body by (metis fst_conv snd_conv)
  have f: "r = Some (GeneratorError (Prefix g @ Generator_Name g) (Name doc) (Error gtext e))"
    if "lookPathErr g' = Some e" for e
  proof -
    from that c have "lookPathErr ?g1 = Some e" by simp
    then have "fst (Generate_body E g w doc opts) = Some e"
      using Generate_body_lookup_failed [OF b] by simp
    with body assms(3) i show ?thesis
      by (auto simp: Generate_def Generate_deferred_def split: prod.splits)
  qed
  from c d i f show ?thesis by simp
qed

lemma Generate_calls_append:
  "Generate_calls gtext E g w (xs @ ys) =
     (case Generate_calls gtext E g w xs of
        (rs, g1, w1) \<Rightarrow>
          (case Generate_calls gtext E g1 w1 ys of
             (rs', g2, w2) \<Rightarrow> (rs @ rs', g2, w2)))"
  by (induction xs arbitrary: g w) (auto split: prod.splits)

lemma Generate_calls_unencoded:
  assumes "\<forall>c\<in>set pre. \<not> encodes E (snd c)"
  shows "\<exists>rs. Generate_calls gtext E g w pre = (rs, g, w) \<and> length rs = length pre"
  using assms
proof (induction pre)
  case Nil
  then show ?case by simp
next
  case (Cons c pre)
  then obtain r where "Generate gtext E g w (fst c) (snd c) = (r, g, w)"
    using Generate_unencoded [of E "snd c" gtext g w "fst c"] by auto
  with Cons show ?case by auto
qed

lemma Generate_calls_cached:
  assumes "lookOnce g" and "Generate_calls gtext E g w cs = (rs, g', w')"
  shows "lookups w' = lookups w \<and> lookOnce g' \<and> path g' = path g \<and> lookPathErr g' = lookPathErr g \<and>
         length rs = length cs \<and>
         (\<forall>e. lookPathErr g = Some e \<longrightarrow>
            (\<forall>i<length cs. encodes E (snd (cs ! i)) \<longrightarrow>
               rs ! i = Some (GeneratorError (Prefix g @ Generator_Name g) (Name (fst (cs ! i)))
                                (Error gtext e))))"
  using assms
proof (induction cs arbitrary: g w rs)
  case Nil
  then show ?case by simp
next
  case (Cons c cs)
  obtain r g1 w1 where one: "Generate gtext E g w (fst c) (snd c) = (r, g1, w1)"
    by (cases "Generate gtext E g w (fst c) (snd c)") auto
  obtain rs1 where rest: "Generate_calls gtext E g1 w1 cs = (rs1, g', w')" and rs: "rs = r # rs1"
    using Cons.prems(2) one by (auto split: prod.splits)
  have c1: "lookups w1 = lookups w \<and> lookOnce g1 \<and> path g1 = path g \<and> lookPathErr g1 = lookPathErr g \<and>
            Prefix g1 = Prefix g \<and> Generator_Name g1 = Generator_Name g"
    using Generate_cached [OF Cons.prems(1) one] .
  then have l1: "lookOnce g1" by simp
  note ih = Cons.IH [OF l1 rest]
  have hd: "r = Some (GeneratorError (Prefix g @ Generator_Name g) (Name (fst c)) (Error gtext e))"
    if "lookPathErr g = Some e" and "encodes E (snd c)" for e
    using Generate_cached_failure [OF Cons.prems(1) that, of gtext w "fst c"] one by simp
  show ?case
  proof (intro conjI allI impI)
    fix e i
    assume e: "lookPathErr g = Some e" and i: "i < length (c # cs)" and enc: "encodes E (snd ((c # cs) ! i))"
    show "rs ! i = Some (GeneratorError (Prefix g @ Generator_Name g) (Name (fst ((c # cs) ! i)))
                           (Error gtext e))"
    proof (cases i)
      case 0
      with hd [OF e] enc rs show ?thesis by simp
    next
      case (Suc j)
      with ih c1 e i enc rs show ?thesis by simp
    qed
  qed (use ih c1 rs in simp_all)
qed

text \<open>
  C7, as amended. On a new instance, calls whose options do not encode return before
  the lookup and leave the instance as it was. The first call whose options encode looks
  \<open>Prefix\<close> followed by \<open>Name\<close> up and caches the path and the error of the lookup.
  Over the whole sequence of calls that is the only lookup: the later calls, whatever
  their options, keep the cache, and when the lookup failed each call from the resolving
  one on whose options encode returns that failure, attributed to the generator and its
  document.
\<close>

theorem Generate_resolves_once:
  assumes "\<not> lookOnce g"
      and "\<forall>c\<in>set pre. \<not> encodes E (snd c)"
      and "encodes E opts"
      and "Generate_calls gtext E g w (pre @ (doc, opts) # post) = (rs, g', w')"
  shows "lookups w' = lookups w @ [Prefix g @ Generator_Name g] \<and>
         lookOnce g' \<and>
         (path g', lookPathErr g') = exec_LookPath E (Prefix g @ Generator_Name g) \<and>
         (\<forall>e. snd (exec_LookPath E (Prefix g @ Generator_Name g)) = Some e \<longrightarrow>
            (\<forall>i. length pre \<le> i \<and> i < length (pre @ (doc, opts) # post) \<and>
                 encodes E (snd ((pre @ (doc, opts) # post) ! i)) \<longrightarrow>
               rs ! i = Some (GeneratorError (Prefix g @ Generator_Name g)
                                (Name (fst ((pre @ (doc, opts) # post) ! i))) (Error gtext e))))"
proof -
  obtain rs0 where pre: "Generate_calls gtext E g w pre = (rs0, g, w)" and len0: "length rs0 = length pre"
    using Generate_calls_unencoded [OF assms(2)] by blast
  obtain r g1 w1 where one: "Generate gtext E g w doc opts = (r, g1, w1)"
    by (cases "Generate gtext E g w doc opts") auto
  obtain rs1 where post: "Generate_calls gtext E g1 w1 post = (rs1, g', w')" and rs: "rs = rs0 @ r # rs1"
    using assms(4) pre one by (auto simp: Generate_calls_append split: prod.splits)
  note first = Generate_first_lookup [OF assms(1) assms(3) one]
  then have l1: "lookOnce g1" by simp
  note later = Generate_calls_cached [OF l1 post]
  have res: "rs ! i = Some (GeneratorError (Prefix g @ Generator_Name g)
                              (Name (fst ((pre @ (doc, opts) # post) ! i))) (Error gtext e))"
    if e: "snd (exec_LookPath E (Prefix g @ Generator_Name g)) = Some e"
      and i: "length pre \<le> i" "i < length (pre @ (doc, opts) # post)"
      and enc: "encodes E (snd ((pre @ (doc, opts) # post) ! i))" for e i
  proof -
    have e1: "lookPathErr g1 = Some e"
      using first e by (metis snd_conv)
    show ?thesis
    proof (cases "i = length pre")
      case True
      with first e1 rs len0 show ?thesis by (simp add: nth_append)
    next
      case False
      with i obtain j where j: "i = length pre + Suc j" and jl: "j < length post"
        by (metis Suc_diff_Suc add_Suc_right le_add_diff_inverse le_neq_implies_less
            length_Cons length_append nat_add_left_cancel_less not_less_eq)
      have "encodes E (snd (post ! j))"
        using enc j by (simp add: nth_append)
      with later e1 jl first have "rs1 ! j = Some (GeneratorError (Prefix g @ Generator_Name g)
                                      (Name (fst (post ! j))) (Error gtext e))"
        by simp
      with j rs len0 show ?thesis by (simp add: nth_append)
    qed
  qed
  from first later res show ?thesis by simp
qed

theorem Generate_resolves_once_witness:
  "lookups (snd (snd (Generate_calls demo_gtext (demo_env \<lparr>Response_Error = [], File = []\<rparr>)
       (NewGenerator ''gqlc-gen-'' ''missing'') demo_world
       [(demo_doc, ''bad''), (demo_doc, ''{}''), (demo_doc, ''{}'')]))) = [''gqlc-gen-missing''] \<and>
   fst (Generate_calls demo_gtext (demo_env \<lparr>Response_Error = [], File = []\<rparr>)
       (NewGenerator ''gqlc-gen-'' ''missing'') demo_world
       [(demo_doc, ''bad''), (demo_doc, ''{}''), (demo_doc, ''{}'')]) ! 2
     = Some (GeneratorError ''gqlc-gen-missing'' ''test.gql'' ''executable file not found in $PATH'')"
proof -
  let ?E = "demo_env \<lparr>Response_Error = [], File = []\<rparr>"
  let ?g = "NewGenerator ''gqlc-gen-'' ''missing''"
  let ?X = "Generate_calls demo_gtext ?E ?g demo_world
              ([(demo_doc, ''bad'')] @ (demo_doc, ''{}'') # [(demo_doc, ''{}'')])"
  have h1: "\<not> lookOnce ?g"
    by (simp add: NewGenerator_def)
  have h2: "\<forall>c\<in>set [(demo_doc, ''bad'')]. \<not> encodes ?E (snd c)"
    by (simp add: encodes_def demo_env_def)
  have h3: "encodes ?E ''{}''"
    by (simp add: encodes_def demo_env_def)
  have h4: "?X = (fst ?X, fst (snd ?X), snd (snd ?X))"
    by simp
  have e: "snd (exec_LookPath ?E (Prefix ?g @ Generator_Name ?g))
             = Some (ErrorString ''executable file not found in $PATH'')"
    by (simp add: demo_env_def NewGenerator_def)
  have i: "length [(demo_doc, ''bad'')] \<le> 2 \<and>
           2 < length ([(demo_doc, ''bad'')] @ (demo_doc, ''{}'') # [(demo_doc, ''{}'')]) \<and>
           encodes ?E (snd (([(demo_doc, ''bad'')] @ (demo_doc, ''{}'') # [(demo_doc, ''{}'')]) ! 2))"
    by (simp add: encodes_def demo_env_def)
  note t = Generate_resolves_once [OF h1 h2 h3 h4]
  from t have a: "lookups (snd (snd ?X)) = lookups demo_world @ [Prefix ?g @ Generator_Name ?g]"
    by (rule conjunct1)
  from t have "\<forall>e. snd (exec_LookPath ?E (Prefix ?g @ Generator_Name ?g)) = Some e \<longrightarrow>
            (\<forall>i. length [(demo_doc, ''bad'')] \<le> i \<and>
                  i < length ([(demo_doc, ''bad'')] @ (demo_doc, ''{}'') # [(demo_doc, ''{}'')]) \<and>
                 encodes ?E (snd (([(demo_doc, ''bad'')] @ (demo_doc, ''{}'') # [(demo_doc, ''{}'')]) ! i)) \<longrightarrow>
               fst ?X ! i = Some (GeneratorError (Prefix ?g @ Generator_Name ?g)
                                (Name (fst (([(demo_doc, ''bad'')] @ (demo_doc, ''{}'') # [(demo_doc, ''{}'')]) ! i)))
                                (Error demo_gtext e)))"
    by (rule conjunct2 [THEN conjunct2, THEN conjunct2])
  with e i have b: "fst ?X ! 2 = Some (GeneratorError (Prefix ?g @ Generator_Name ?g)
                                (Name (fst (([(demo_doc, ''bad'')] @ (demo_doc, ''{}'') # [(demo_doc, ''{}'')]) ! 2)))
                                (Error demo_gtext (ErrorString ''executable file not found in $PATH'')))"
    by blast
  from a b show ?thesis
    by (simp add: NewGenerator_def demo_world_def demo_doc_def)
qed

text \<open>
  C7, the claim as stated fails: a first call whose options do not encode returns the
  encoding error and resolves nothing; the instance and the list of lookups are as before.
\<close>

theorem Generate_first_call_unresolved:
  "Generate demo_gtext (demo_env \<lparr>Response_Error = [], File = []\<rparr>)
       (NewGenerator ''gqlc-gen-'' ''demo'') demo_world demo_doc ''bad''
     = (Some (GeneratorError ''gqlc-gen-demo'' ''test.gql'' ''json: unsupported type''),
        NewGenerator ''gqlc-gen-'' ''demo'', demo_world) \<and>
   \<not> lookOnce (NewGenerator ''gqlc-gen-'' ''demo'') \<and>
   lookPathErr (NewGenerator ''gqlc-gen-'' ''demo'') = None \<and>
   path (NewGenerator ''gqlc-gen-'' ''demo'') = [] \<and>
   lookups demo_world = []"
  by (simp add: Generate_def Generate_body_def Generate_deferred_def demo_env_def NewGenerator_def
      demo_world_def demo_doc_def)

lemma openedNames_append: "openedNames (xs @ ys) = openedNames xs @ openedNames ys"
  by (induction xs rule: openedNames.induct) simp_all

lemma writeFiles_opened_safe:
  assumes "Context_Open E = OutputContext_open fs"
  shows "\<exists>ns. openedNames (events (snd (writeFiles E fls w))) = openedNames (events w) @ ns \<and>
              (\<forall>n\<in>set ns. \<not> unsafeName n)"
proof (induction fls arbitrary: w)
  case Nil
  then show ?case by simp
next
  case (Cons f fls)
  show ?case
  proof (cases "Context_Open E (File_Name f)")
    case (Some ferr)
    then show ?thesis by simp
  next
    case None
    then have safe: "\<not> unsafeName (File_Name f)"
      using assms by (auto simp: OutputContext_open_def split: if_splits)
    let ?w1 = "w\<lparr>events := events w @ [Opened (nextHandle w) (File_Name f)]\<rparr>"
    show ?thesis
    proof (cases "Writer_Write E (File_Name f) (Content f)")
      case (Some err)
      with None safe show ?thesis
        by (simp add: Let_def openedNames_append)
    next
      case wr: None
      let ?w2 = "?w1\<lparr>events := events ?w1 @ [Wrote (nextHandle w) (Content f)]\<rparr>"
      from Cons.IH [of ?w2] obtain ns where
        ns: "openedNames (events (snd (writeFiles E fls ?w2))) = openedNames (events ?w2) @ ns"
          "\<forall>n\<in>set ns. \<not> unsafeName n"
        by blast
      have "writeFiles E (f # fls) w = writeFiles E fls ?w2"
        using None wr by (simp add: Let_def)
      with ns safe show ?thesis
        by (intro exI [of _ "File_Name f # ns"]) (simp add: openedNames_append)
    qed
  qed
qed

lemma writeFiles_written:
  assumes "\<forall>f\<in>set pre. Context_Open E (File_Name f) = None \<and> Writer_Write E (File_Name f) (Content f) = None"
  shows "\<exists>w1. writeFiles E (pre @ rest) w = writeFiles E rest w1 \<and>
              openedNames (events w1) = openedNames (events w) @ map File_Name pre"
  using assms
proof (induction pre arbitrary: w)
  case Nil
  show ?case by (intro exI [of _ w]) simp
next
  case (Cons f pre)
  let ?w1 = "w\<lparr>events := events w @ [Opened (nextHandle w) (File_Name f)]\<rparr>"
  let ?w2 = "?w1\<lparr>events := events ?w1 @ [Wrote (nextHandle w) (Content f)]\<rparr>"
  have step: "writeFiles E ((f # pre) @ rest) w = writeFiles E (pre @ rest) ?w2"
    using Cons.prems by (simp add: Let_def)
  from Cons.IH [of ?w2] Cons.prems obtain w3 where
    "writeFiles E (pre @ rest) ?w2 = writeFiles E rest w3"
    "openedNames (events w3) = openedNames (events ?w2) @ map File_Name pre"
    by auto
  with step show ?case
    by (intro exI [of _ w3]) (simp add: openedNames_append)
qed

lemma writeFiles_rejects:
  assumes "Context_Open E = OutputContext_open fs" and "unsafeName (File_Name f)"
  shows "writeFiles E (f # post) w = (Some InvalidPath, w)"
  using assms by (simp add: OutputContext_open_def)

lemma Generate_body_world:
  "snd (snd (Generate_body E g w doc opts)) = w \<or>
   (\<exists>fls. snd (snd (Generate_body E g w doc opts)) = snd (writeFiles E fls (snd (lookOnce_Do E g w))))"
proof (cases "json_Marshal E opts")
  case (Inl e)
  then show ?thesis by (simp add: Generate_body_def)
next
  case (Inr b)
  obtain g1 w1 where d: "lookOnce_Do E g w = (g1, w1)"
    by (cases "lookOnce_Do E g w") auto
  have "snd (snd (Generate_body E g w doc opts)) = snd (writeFiles E [] w1) \<or>
        (\<exists>fls. snd (snd (Generate_body E g w doc opts)) = snd (writeFiles E fls w1))"
    using Inr d
    by (auto simp: Generate_body_def Let_def case_prod_beta split: sum.splits option.splits)
  then obtain fls where "snd (snd (Generate_body E g w doc opts)) = snd (writeFiles E fls w1)"
    by blast
  with d show ?thesis
    by (intro disjI2 exI [of _ fls]) simp
qed

lemma Generate_body_events:
  "\<exists>fls. events (snd (snd (Generate_body E g w doc opts)))
            = events (snd (writeFiles E fls (snd (lookOnce_Do E g w))))"
proof -
  from Generate_body_world [of E g w doc opts] show ?thesis
  proof
    assume "snd (snd (Generate_body E g w doc opts)) = w"
    then have "events (snd (snd (Generate_body E g w doc opts)))
                 = events (snd (writeFiles E [] (snd (lookOnce_Do E g w))))"
      using lookOnce_Do_events [of E g w] by simp
    then show ?thesis by blast
  next
    assume "\<exists>fls. snd (snd (Generate_body E g w doc opts)) = snd (writeFiles E fls (snd (lookOnce_Do E g w)))"
    then show ?thesis by auto
  qed
qed

lemma Generate_body_writes:
  assumes "json_Marshal E opts = Inr b"
      and "lookOnce_Do E g w = (g1, w1)"
      and "lookPathErr g1 = None"
      and "proto_Marshal E \<lparr>FileToGenerate = [Name doc], Parameter = b, Documents = [doc]\<rparr> = Inr b'"
      and "Cmd_Run E (configureCmd g1 b') = (out, None)"
      and "proto_Unmarshal E out = Inr resp"
      and "Response_Error resp = []"
  shows "Generate_body E g w doc opts
           = (fst (writeFiles E (File resp) w1), g1\<lparr>Cmd := None\<rparr>, snd (writeFiles E (File resp) w1))"
  using assms by (simp add: Generate_body_def Let_def split: prod.splits)

lemma Generate_fst:
  "fst (Generate gtext E g w doc opts)
     = (case fst (Generate_body E g w doc opts) of
          None \<Rightarrow> None
        | Some e \<Rightarrow> Some (GeneratorError (Prefix g @ Generator_Name g) (Name doc) (Error gtext e)))"
proof -
  obtain err g' w' where b: "Generate_body E g w doc opts = (err, g', w')"
    by (cases "Generate_body E g w doc opts") auto
  from Generate_body_ident [of E g w doc opts] b
  have "Prefix g' = Prefix g" and "Generator_Name g' = Generator_Name g"
    by simp_all
  with b show ?thesis
    by (cases err) (simp_all add: Generate_def Generate_deferred_def)
qed

lemma writeFiles_all_written:
  assumes "\<forall>f\<in>set fls. Context_Open E (File_Name f) = None \<and> Writer_Write E (File_Name f) (Content f) = None"
  shows "fst (writeFiles E fls w) = None"
  using writeFiles_written [OF assms, of "[]" w] by auto

lemma writeFiles_open_fails:
  assumes "\<forall>p\<in>set pre. Context_Open E (File_Name p) = None \<and> Writer_Write E (File_Name p) (Content p) = None"
      and "Context_Open E (File_Name f) = Some e"
  shows "fst (writeFiles E (pre @ f # post) w) = Some e"
  using writeFiles_written [OF assms(1), of "f # post" w] assms(2) by auto

lemma writeFiles_write_fails:
  assumes "\<forall>p\<in>set pre. Context_Open E (File_Name p) = None \<and> Writer_Write E (File_Name p) (Content p) = None"
      and "Context_Open E (File_Name f) = None"
      and "Writer_Write E (File_Name f) (Content f) = Some e"
  shows "fst (writeFiles E (pre @ f # post) w) = Some e"
  using writeFiles_written [OF assms(1), of "f # post" w] assms(2,3) by (auto simp: Let_def)

text \<open>
  C8. Every error of the executor's \<open>Generate\<close> is a \<open>GeneratorError\<close> that names the
  generator (\<open>Prefix\<close> followed by \<open>Name\<close>) and the document, and its message is the
  text of the error that ended the call. Step by step: the error of encoding the
  options; the error of the path lookup, new or cached; the error of encoding the
  request; the error of running the subprocess; the error of decoding its output; the
  failure the plugin reports in its response; the error of opening an output file and
  the error of writing one, after the files before it were written. When every step
  succeeds and every file is written, \<open>Generate\<close> returns no error.
\<close>

theorem Generate_error_attributed:
  "(fst (Generate gtext E g w doc opts) = None \<or>
    (\<exists>m. fst (Generate gtext E g w doc opts)
         = Some (GeneratorError (Prefix g @ Generator_Name g) (Name doc) m))) \<and>
   (json_Marshal E opts = Inl e \<longrightarrow> fst (Generate gtext E g w doc opts) 
              = Some (GeneratorError (Prefix g @ Generator_Name g) (Name doc) (Error gtext e))) \<and>
   (json_Marshal E opts = Inr b \<and> lookOnce_Do E g w = (g1, w1) \<longrightarrow>
      (lookPathErr g1 = Some e \<longrightarrow> fst (Generate gtext E g w doc opts) 
              = Some (GeneratorError (Prefix g @ Generator_Name g) (Name doc) (Error gtext e))) \<and>
      (lookPathErr g1 = None \<longrightarrow>
         (proto_Marshal E \<lparr>FileToGenerate = [Name doc], Parameter = b, Documents = [doc]\<rparr> = Inl e \<longrightarrow>
            fst (Generate gtext E g w doc opts) 
              = Some (GeneratorError (Prefix g @ Generator_Name g) (Name doc) (Error gtext e))) \<and>
         (proto_Marshal E \<lparr>FileToGenerate = [Name doc], Parameter = b, Documents = [doc]\<rparr> = Inr b' \<and>
          Cmd_Run E (configureCmd g1 b') = (out, rerr) \<longrightarrow>
            (rerr = Some e \<longrightarrow> fst (Generate gtext E g w doc opts) 
              = Some (GeneratorError (Prefix g @ Generator_Name g) (Name doc) (Error gtext e))) \<and>
            (rerr = None \<longrightarrow>
               (proto_Unmarshal E out = Inl e \<longrightarrow> fst (Generate gtext E g w doc opts) 
              = Some (GeneratorError (Prefix g @ Generator_Name g) (Name doc) (Error gtext e))) \<and>
               (proto_Unmarshal E out = Inr resp \<longrightarrow>
                  (Response_Error resp \<noteq> [] \<longrightarrow>
                     fst (Generate gtext E g w doc opts)
                       = Some (GeneratorError (Prefix g @ Generator_Name g) (Name doc) (Response_Error resp))) \<and>
                  (Response_Error resp = [] \<longrightarrow>
                     (File resp = pre @ f # post \<and>
                      (\<forall>p\<in>set pre. Context_Open E (File_Name p) = None \<and>
                                    Writer_Write E (File_Name p) (Content p) = None) \<longrightarrow>
                        (Context_Open E (File_Name f) = Some e \<longrightarrow>
                           fst (Generate gtext E g w doc opts) 
              = Some (GeneratorError (Prefix g @ Generator_Name g) (Name doc) (Error gtext e))) \<and>
                        (Context_Open E (File_Name f) = None \<and>
                         Writer_Write E (File_Name f) (Content f) = Some e \<longrightarrow>
                           fst (Generate gtext E g w doc opts) 
              = Some (GeneratorError (Prefix g @ Generator_Name g) (Name doc) (Error gtext e)))) \<and>
                     ((\<forall>p\<in>set (File resp). Context_Open E (File_Name p) = None \<and>
                                           Writer_Write E (File_Name p) (Content p) = None) \<longrightarrow>
                        fst (Generate gtext E g w doc opts) = None)))))))"
proof -
  note G = Generate_fst [of gtext E g w doc opts]
  have attributed: "fst (Generate gtext E g w doc opts) = None \<or>
    (\<exists>m. fst (Generate gtext E g w doc opts)
         = Some (GeneratorError (Prefix g @ Generator_Name g) (Name doc) m))"
    unfolding G by (cases "fst (Generate_body E g w doc opts)") simp_all
  have files: "fst (Generate_body E g w doc opts) = fst (writeFiles E (File resp) w1)"
    if "json_Marshal E opts = Inr b" "lookOnce_Do E g w = (g1, w1)" "lookPathErr g1 = None"
       "proto_Marshal E \<lparr>FileToGenerate = [Name doc], Parameter = b, Documents = [doc]\<rparr> = Inr b'"
       "Cmd_Run E (configureCmd g1 b') = (out, None)" "proto_Unmarshal E out = Inr resp"
       "Response_Error resp = []"
    using Generate_body_writes [OF that] by simp
  show ?thesis
    unfolding G
  proof (intro conjI impI; (elim conjE)?)
    show "(case fst (Generate_body E g w doc opts) of None \<Rightarrow> None
            | Some e \<Rightarrow> Some (GeneratorError (Prefix g @ Generator_Name g) (Name doc) (Error gtext e))) = None \<or>
          (\<exists>m. (case fst (Generate_body E g w doc opts) of None \<Rightarrow> None
            | Some e \<Rightarrow> Some (GeneratorError (Prefix g @ Generator_Name g) (Name doc) (Error gtext e)))
              = Some (GeneratorError (Prefix g @ Generator_Name g) (Name doc) m))"
      using attributed unfolding G .
  qed (simp_all add: files writeFiles_all_written writeFiles_open_fails writeFiles_write_fails,
       simp_all add: Generate_body_def Let_def)
qed

theorem Generate_error_attributed_witness:
  "fst (Generate demo_gtext (demo_env_failing ''none'') (NewGenerator ''gqlc-gen-'' ''demo'')
          demo_world demo_doc ''bad'')
     = Some (GeneratorError ''gqlc-gen-demo'' ''test.gql'' ''json: unsupported type'') \<and>
   fst (Generate demo_gtext (demo_env_failing ''none'') (NewGenerator ''gqlc-gen-'' ''missing'')
          demo_world demo_doc ''{}'')
     = Some (GeneratorError ''gqlc-gen-missing'' ''test.gql'' ''executable file not found in $PATH'') \<and>
   fst (Generate demo_gtext (demo_env_failing ''marshal'') (NewGenerator ''gqlc-gen-'' ''demo'')
          demo_world demo_doc ''{}'')
     = Some (GeneratorError ''gqlc-gen-demo'' ''test.gql'' ''proto: marshal failed'') \<and>
   fst (Generate demo_gtext (demo_env_failing ''run'') (NewGenerator ''gqlc-gen-'' ''demo'')
          demo_world demo_doc ''{}'')
     = Some (GeneratorError ''gqlc-gen-demo'' ''test.gql'' ''exit status 1'') \<and>
   fst (Generate demo_gtext (demo_env_failing ''unmarshal'') (NewGenerator ''gqlc-gen-'' ''demo'')
          demo_world demo_doc ''{}'')
     = Some (GeneratorError ''gqlc-gen-demo'' ''test.gql'' ''proto: cannot parse'') \<and>
   fst (Generate demo_gtext (demo_env_failing ''report'') (NewGenerator ''gqlc-gen-'' ''demo'')
          demo_world demo_doc ''{}'')
     = Some (GeneratorError ''gqlc-gen-demo'' ''test.gql'' ''boom'') \<and>
   fst (Generate demo_gtext (demo_env_failing ''open'') (NewGenerator ''gqlc-gen-'' ''demo'')
          demo_world demo_doc ''{}'')
     = Some (GeneratorError ''gqlc-gen-demo'' ''test.gql'' ''permission denied'') \<and>
   fst (Generate demo_gtext (demo_env_failing ''write'') (NewGenerator ''gqlc-gen-'' ''demo'')
          demo_world demo_doc ''{}'')
     = Some (GeneratorError ''gqlc-gen-demo'' ''test.gql'' ''disk full'') \<and>
   fst (Generate demo_gtext (demo_env_failing ''none'') (NewGenerator ''gqlc-gen-'' ''demo'')
          demo_world demo_doc ''{}'') = None"
proof -
  let ?g = "NewGenerator ''gqlc-gen-'' ''demo''"
  let ?g1 = "?g\<lparr>lookOnce := True, path := ''/usr/bin/gqlc-gen-demo'', lookPathErr := None\<rparr>"
  let ?m = "NewGenerator ''gqlc-gen-'' ''missing''"
  let ?m1 = "?m\<lparr>lookOnce := True, path := [],
                 lookPathErr := Some (ErrorString ''executable file not found in $PATH'')\<rparr>"
  let ?w1 = "demo_world\<lparr>lookups := [''gqlc-gen-demo'']\<rparr>"
  let ?f = "\<lparr>File_Name = ''a.txt'', Content = ''x''\<rparr>"
  note defs = demo_env_failing_def lookOnce_Do_def NewGenerator_def demo_world_def demo_doc_def
    demo_gtext_def Let_def
  have c1: "fst (Generate demo_gtext (demo_env_failing ''none'') ?g demo_world demo_doc ''bad'')
     = Some (GeneratorError ''gqlc-gen-demo'' ''test.gql'' ''json: unsupported type'')"
    using Generate_error_attributed [where gtext = demo_gtext and E = "demo_env_failing ''none''"
        and g = ?g and w = demo_world and doc = demo_doc and opts = "''bad''"
        and e = "ErrorString ''json: unsupported type''"]
    by (simp add: defs)
  have c2: "fst (Generate demo_gtext (demo_env_failing ''none'') ?m demo_world demo_doc ''{}'')
     = Some (GeneratorError ''gqlc-gen-missing'' ''test.gql'' ''executable file not found in $PATH'')"
    using Generate_error_attributed [where gtext = demo_gtext and E = "demo_env_failing ''none''"
        and g = ?m and w = demo_world and doc = demo_doc and opts = "''{}''" and b = "''{}''"
        and ?g1.0 = ?m1 and ?w1.0 = "demo_world\<lparr>lookups := [''gqlc-gen-missing'']\<rparr>"
        and e = "ErrorString ''executable file not found in $PATH''"]
    by (simp add: defs)
  have c3: "fst (Generate demo_gtext (demo_env_failing ''marshal'') ?g demo_world demo_doc ''{}'')
     = Some (GeneratorError ''gqlc-gen-demo'' ''test.gql'' ''proto: marshal failed'')"
    using Generate_error_attributed [where gtext = demo_gtext and E = "demo_env_failing ''marshal''"
        and g = ?g and w = demo_world and doc = demo_doc and opts = "''{}''" and b = "''{}''"
        and ?g1.0 = ?g1 and ?w1.0 = ?w1 and e = "ErrorString ''proto: marshal failed''"]
    by (simp add: defs)
  have c4: "fst (Generate demo_gtext (demo_env_failing ''run'') ?g demo_world demo_doc ''{}'')
     = Some (GeneratorError ''gqlc-gen-demo'' ''test.gql'' ''exit status 1'')"
    using Generate_error_attributed [where gtext = demo_gtext and E = "demo_env_failing ''run''"
        and g = ?g and w = demo_world and doc = demo_doc and opts = "''{}''" and b = "''{}''"
        and ?g1.0 = ?g1 and ?w1.0 = ?w1 and b' = "''{}''" and out = "[]"
        and rerr = "Some (ErrorString ''exit status 1'')" and e = "ErrorString ''exit status 1''"]
    by (simp add: defs)
  have c5: "fst (Generate demo_gtext (demo_env_failing ''unmarshal'') ?g demo_world demo_doc ''{}'')
     = Some (GeneratorError ''gqlc-gen-demo'' ''test.gql'' ''proto: cannot parse'')"
    using Generate_error_attributed [where gtext = demo_gtext and E = "demo_env_failing ''unmarshal''"
        and g = ?g and w = demo_world and doc = demo_doc and opts = "''{}''" and b = "''{}''"
        and ?g1.0 = ?g1 and ?w1.0 = ?w1 and b' = "''{}''" and out = "''response''"
        and rerr = None and e = "ErrorString ''proto: cannot parse''"]
    by (simp add: defs)
  have c6: "fst (Generate demo_gtext (demo_env_failing ''report'') ?g demo_world demo_doc ''{}'')
     = Some (GeneratorError ''gqlc-gen-demo'' ''test.gql'' ''boom'')"
    using Generate_error_attributed [where gtext = demo_gtext and E = "demo_env_failing ''report''"
        and g = ?g and w = demo_world and doc = demo_doc and opts = "''{}''" and b = "''{}''"
        and ?g1.0 = ?g1 and ?w1.0 = ?w1 and b' = "''{}''" and out = "''response''"
        and rerr = None and resp = "\<lparr>Response_Error = ''boom'', File = [?f]\<rparr>"]
    by (simp add: defs)
  have c7: "fst (Generate demo_gtext (demo_env_failing ''open'') ?g demo_world demo_doc ''{}'')
     = Some (GeneratorError ''gqlc-gen-demo'' ''test.gql'' ''permission denied'')"
    using Generate_error_attributed [where gtext = demo_gtext and E = "demo_env_failing ''open''"
        and g = ?g and w = demo_world and doc = demo_doc and opts = "''{}''" and b = "''{}''"
        and ?g1.0 = ?g1 and ?w1.0 = ?w1 and b' = "''{}''" and out = "''response''"
        and rerr = None and resp = "\<lparr>Response_Error = [], File = [?f]\<rparr>"
        and pre = "[]" and f = ?f and post = "[]" and e = "ErrorString ''permission denied''"]
    by (simp add: defs)
  have c8: "fst (Generate demo_gtext (demo_env_failing ''write'') ?g demo_world demo_doc ''{}'')
     = Some (GeneratorError ''gqlc-gen-demo'' ''test.gql'' ''disk full'')"
    using Generate_error_attributed [where gtext = demo_gtext and E = "demo_env_failing ''write''"
        and g = ?g and w = demo_world and doc = demo_doc and opts = "''{}''" and b = "''{}''"
        and ?g1.0 = ?g1 and ?w1.0 = ?w1 and b' = "''{}''" and out = "''response''"
        and rerr = None and resp = "\<lparr>Response_Error = [], File = [?f]\<rparr>"
        and pre = "[]" and f = ?f and post = "[]" and e = "ErrorString ''disk full''"]
    by (simp add: defs)
  have c9: "fst (Generate demo_gtext (demo_env_failing ''none'') ?g demo_world demo_doc ''{}'') = None"
    using Generate_error_attributed [where gtext = demo_gtext and E = "demo_env_failing ''none''"
        and g = ?g and w = demo_world and doc = demo_doc and opts = "''{}''" and b = "''{}''"
        and ?g1.0 = ?g1 and ?w1.0 = ?w1 and b' = "''{}''" and out = "''response''"
        and rerr = None and resp = "\<lparr>Response_Error = [], File = [?f]\<rparr>"]
    by (simp add: defs)
  from c1 c2 c3 c4 c5 c6 c7 c8 c9 show ?thesis
    by (intro conjI)
qed

text \<open>
  C5, against the output context as the spec describes it. Whatever the plugin answers,
  every file that \<open>Generate\<close> opens has a name that is relative and has no \<open>.\<close> or
  \<open>..\<close> component. And when a decoded \<open>Response\<close> without error lists a file \<open>f\<close>
  whose name is absolute or has such a component, after files \<open>pre\<close> with safe names
  that open and write, then \<open>Generate\<close> fails with \<open>InvalidPath\<close>, attributed to the
  generator and the document, and has opened the files of \<open>pre\<close> only: neither \<open>f\<close>
  nor a file after it.
\<close>

theorem Generate_rejects_unsafe_name:
  assumes "Context_Open E = OutputContext_open fs"
  shows "(\<exists>ns. openedNames (events (snd (snd (Generate gtext E g w doc opts))))
                 = openedNames (events w) @ ns \<and> (\<forall>n\<in>set ns. \<not> unsafeName n)) \<and>
         (json_Marshal E opts = Inr b \<and>
          lookOnce_Do E g w = (g1, w1) \<and> lookPathErr g1 = None \<and>
          proto_Marshal E \<lparr>FileToGenerate = [Name doc], Parameter = b, Documents = [doc]\<rparr> = Inr b' \<and>
          Cmd_Run E (configureCmd g1 b') = (out, None) \<and>
          proto_Unmarshal E out = Inr resp \<and> Response_Error resp = [] \<and>
          File resp = pre @ f # post \<and> unsafeName (File_Name f) \<and>
          (\<forall>p\<in>set pre. fs (File_Name p) = None \<and> \<not> unsafeName (File_Name p) \<and>
                        CHR 0x5C \<notin> set (File_Name p) \<and>
                        Writer_Write E (File_Name p) (Content p) = None)
          \<longrightarrow>
            fst (Generate gtext E g w doc opts)
              = Some (GeneratorError (Prefix g @ Generator_Name g) (Name doc) (Error gtext InvalidPath)) \<and>
            openedNames (events (snd (snd (Generate gtext E g w doc opts))))
              = openedNames (events w) @ map File_Name pre)"
proof (intro conjI impI)
  have w: "snd (snd (Generate gtext E g w doc opts)) = snd (snd (Generate_body E g w doc opts))"
    by (simp add: Generate_def split: prod.splits)
  obtain fls where "events (snd (snd (Generate_body E g w doc opts)))
                      = events (snd (writeFiles E fls (snd (lookOnce_Do E g w))))"
    using Generate_body_events [of E g w doc opts] by blast
  with w writeFiles_opened_safe [OF assms, of fls "snd (lookOnce_Do E g w)"] lookOnce_Do_events [of E g w]
  show "\<exists>ns. openedNames (events (snd (snd (Generate gtext E g w doc opts))))
                 = openedNames (events w) @ ns \<and> (\<forall>n\<in>set ns. \<not> unsafeName n)"
    by simp
next
  assume h: "json_Marshal E opts = Inr b \<and>
          lookOnce_Do E g w = (g1, w1) \<and> lookPathErr g1 = None \<and>
          proto_Marshal E \<lparr>FileToGenerate = [Name doc], Parameter = b, Documents = [doc]\<rparr> = Inr b' \<and>
          Cmd_Run E (configureCmd g1 b') = (out, None) \<and>
          proto_Unmarshal E out = Inr resp \<and> Response_Error resp = [] \<and>
          File resp = pre @ f # post \<and> unsafeName (File_Name f) \<and>
          (\<forall>p\<in>set pre. fs (File_Name p) = None \<and> \<not> unsafeName (File_Name p) \<and>
                        CHR 0x5C \<notin> set (File_Name p) \<and>
                        Writer_Write E (File_Name p) (Content p) = None)"
  then have body: "Generate_body E g w doc opts
           = (fst (writeFiles E (File resp) w1), g1\<lparr>Cmd := None\<rparr>, snd (writeFiles E (File resp) w1))"
    using Generate_body_writes [of E opts b g w g1 w1 doc b' out resp] by simp
  have "\<forall>p\<in>set pre. Context_Open E (File_Name p) = None \<and> Writer_Write E (File_Name p) (Content p) = None"
    using h assms by (simp add: OutputContext_open_def)
  then obtain w2 where w2: "writeFiles E (pre @ f # post) w1 = writeFiles E (f # post) w2"
      "openedNames (events w2) = openedNames (events w1) @ map File_Name pre"
    using writeFiles_written [of pre E "f # post" w1] by blast
  have "writeFiles E (f # post) w2 = (Some InvalidPath, w2)"
    using writeFiles_rejects [OF assms, of f post w2] h by simp
  with w2 h have wf: "writeFiles E (File resp) w1 = (Some InvalidPath, w2)"
    by simp
  have id: "Prefix g1 = Prefix g \<and> Generator_Name g1 = Generator_Name g \<and> events w1 = events w"
    using lookOnce_Do_ident [of E g w] lookOnce_Do_events [of E g w] h by simp
  from body wf id w2(2)
  show "fst (Generate gtext E g w doc opts)
              = Some (GeneratorError (Prefix g @ Generator_Name g) (Name doc) (Error gtext InvalidPath))"
    and "openedNames (events (snd (snd (Generate gtext E g w doc opts))))
              = openedNames (events w) @ map File_Name pre"
    by (simp_all add: Generate_def Generate_deferred_def)
qed

theorem Generate_rejects_unsafe_name_witness:
  "fst (Generate demo_gtext (demo_env_checked \<lparr>Response_Error = [], File = demo_files\<rparr>)
          (NewGenerator ''gqlc-gen-'' ''demo'') demo_world demo_doc ''{}'')
     = Some (GeneratorError ''gqlc-gen-demo'' ''test.gql'' ''InvalidPath'') \<and>
   openedNames (events (snd (snd (Generate demo_gtext
          (demo_env_checked \<lparr>Response_Error = [], File = demo_files\<rparr>)
          (NewGenerator ''gqlc-gen-'' ''demo'') demo_world demo_doc ''{}''))))
     = [''ok.txt'']"
proof -
  let ?resp = "\<lparr>Response_Error = [], File = demo_files\<rparr>"
  let ?E = "demo_env_checked ?resp"
  let ?g = "NewGenerator ''gqlc-gen-'' ''demo''"
  let ?g1 = "?g\<lparr>lookOnce := True, path := ''/usr/bin/gqlc-gen-demo'', lookPathErr := None\<rparr>"
  let ?w1 = "demo_world\<lparr>lookups := [''gqlc-gen-demo'']\<rparr>"
  let ?pre = "[\<lparr>File_Name = ''ok.txt'', Content = ''x''\<rparr>]"
  let ?f = "\<lparr>File_Name = ''../evil.txt'', Content = ''y''\<rparr>"
  let ?post = "[\<lparr>File_Name = ''/etc/passwd'', Content = ''z''\<rparr>]"
  have h0: "Context_Open ?E = OutputContext_open (\<lambda>n. None)"
    by (simp add: demo_env_checked_def)
  have hyp: "json_Marshal ?E ''{}'' = Inr ''{}'' \<and>
          lookOnce_Do ?E ?g demo_world = (?g1, ?w1) \<and> lookPathErr ?g1 = None \<and>
          proto_Marshal ?E \<lparr>FileToGenerate = [Name demo_doc], Parameter = ''{}'', Documents = [demo_doc]\<rparr>
            = Inr ''{}'' \<and>
          Cmd_Run ?E (configureCmd ?g1 ''{}'') = (''response'', None) \<and>
          proto_Unmarshal ?E ''response'' = Inr ?resp \<and> Response_Error ?resp = [] \<and>
          File ?resp = ?pre @ ?f # ?post \<and> unsafeName (File_Name ?f) \<and>
          (\<forall>p\<in>set ?pre. (\<lambda>n. None) (File_Name p) = (None :: error option) \<and> \<not> unsafeName (File_Name p) \<and>
                        CHR 0x5C \<notin> set (File_Name p) \<and>
                        Writer_Write ?E (File_Name p) (Content p) = None)"
    by (simp add: demo_env_checked_def demo_env_def demo_files_def lookOnce_Do_def NewGenerator_def
        demo_world_def Let_def unsafeName_def isAbs_def)
  from Generate_rejects_unsafe_name [OF h0, where gtext = demo_gtext and g = ?g and w = demo_world
      and doc = demo_doc and opts = "''{}''" and b = "''{}''" and ?g1.0 = ?g1 and ?w1.0 = ?w1
      and b' = "''{}''" and out = "''response''" and resp = ?resp and pre = ?pre and f = ?f
      and post = ?post, THEN conjunct2, THEN mp, OF hyp]
  show ?thesis
    by (simp add: NewGenerator_def demo_doc_def demo_world_def InvalidPath_def)
qed

text \<open>
  C6. A plugin answers with one file. \<open>Generate\<close> opens it, writes it and returns
  without error; the handle numbered 0 is never closed.
\<close>

theorem Generate_leaves_handle_open:
  "fst (Generate demo_gtext
       (demo_env \<lparr>Response_Error = [], File = [\<lparr>File_Name = ''a.txt'', Content = ''x''\<rparr>]\<rparr>)
       (NewGenerator ''gqlc-gen-'' ''demo'') demo_world demo_doc ''{}'') = None \<and>
   events (snd (snd (Generate demo_gtext
       (demo_env \<lparr>Response_Error = [], File = [\<lparr>File_Name = ''a.txt'', Content = ''x''\<rparr>]\<rparr>)
       (NewGenerator ''gqlc-gen-'' ''demo'') demo_world demo_doc ''{}'')))
     = [Opened 0 ''a.txt'', Wrote 0 ''x''] \<and>
   filter isClosed (events (snd (snd (Generate demo_gtext
       (demo_env \<lparr>Response_Error = [], File = [\<lparr>File_Name = ''a.txt'', Content = ''x''\<rparr>]\<rparr>)
       (NewGenerator ''gqlc-gen-'' ''demo'') demo_world demo_doc ''{}'')))) = []"
  by (simp add: Generate_def Generate_body_def Generate_deferred_def lookOnce_Do_def configureCmd_def
      CommandContext_def demo_env_def NewGenerator_def demo_world_def demo_doc_def nextHandle_def
      Let_def)


section \<open>Properties of the command line\<close>

text \<open>
  C3, as amended. \<open>Run\<close> always returns: it never panics itself. When the run panics
  in the goroutine of \<open>Run\<close> with a value that is not \<open>nil\<close>, be it an error or any
  other value, \<open>Run\<close> returns an error made by \<open>wrapPanic\<close>: it wraps the recovered
  error (for another value, the error whose text is the value printed with \<open>%#v\<close>),
  and its text ends with the stack trace captured by \<open>debug.Stack()\<close>, which is not
  empty. When the run panics with \<open>nil\<close>, \<open>Run\<close> recovers and returns \<open>nil\<close>.
\<close>

theorem Run_recovers_panic:
  "(\<exists>res. Run gtext goSyntax (debug_Stack gid frames) Execute c args = Returns res) \<and>
   (Run_body Execute c args = Panics (PanicError rerr) \<longrightarrow>
      Run gtext goSyntax (debug_Stack gid frames) Execute c args
        = Returns (Some (wrapPanic gtext rerr (debug_Stack gid frames)))) \<and>
   (Run_body Execute c args = Panics (PanicOther v) \<longrightarrow>
      Run gtext goSyntax (debug_Stack gid frames) Execute c args
        = Returns (Some (wrapPanic gtext (ErrorString (goSyntax v)) (debug_Stack gid frames)))) \<and>
   (Run_body Execute c args = Panics PanicNil \<longrightarrow>
      Run gtext goSyntax (debug_Stack gid frames) Execute c args = Returns None) \<and>
   Unwrap (wrapPanic gtext e (debug_Stack gid frames)) = Some e \<and>
   Error gtext (wrapPanic gtext e (debug_Stack gid frames))
     = ''gqlc: recovered from unexpected panic: '' @ Error gtext e @ [CHR 0x0A, CHR 0x0A]
         @ debug_Stack gid frames \<and>
   debug_Stack gid frames \<noteq> []"
proof -
  have "\<exists>res. Run gtext goSyntax (debug_Stack gid frames) Execute c args = Returns res"
    by (simp add: Run_def split: outcome.splits panic_value.splits)
  moreover have "debug_Stack gid frames \<noteq> []"
    by (simp add: debug_Stack_def)
  ultimately show ?thesis
    by (simp add: Run_def wrapPanic_def)
qed

theorem Run_recovers_panic_witness:
  "Run demo_gtext id (debug_Stack ''1'' ''main.main()'') (\<lambda>c. Panics (PanicOther ''boom''))
      \<lparr>Command_args = []\<rparr> [''gqlc'', ''a.gql'']
     = Returns (Some (WrapError
         (''gqlc: recovered from unexpected panic: boom'' @ [CHR 0x0A, CHR 0x0A]
            @ ''goroutine 1 [running]:'' @ [CHR 0x0A] @ ''main.main()'')
         (ErrorString ''boom''))) \<and>
   Run demo_gtext id (debug_Stack ''1'' ''main.main()'')
      (\<lambda>c. Panics (PanicError (ErrorString ''index out of range''))) \<lparr>Command_args = []\<rparr> [''gqlc'', ''a.gql'']
     = Returns (Some (WrapError
         (''gqlc: recovered from unexpected panic: index out of range'' @ [CHR 0x0A, CHR 0x0A]
            @ ''goroutine 1 [running]:'' @ [CHR 0x0A] @ ''main.main()'')
         (ErrorString ''index out of range'')))"
proof -
  let ?c = "\<lparr>Command_args = []\<rparr>"
  let ?args = "[''gqlc'', ''a.gql'']"
  have h1: "Run_body (\<lambda>c. Panics (PanicOther ''boom'')) ?c ?args = Panics (PanicOther ''boom'')"
    by (simp add: Run_body_def)
  have h2: "Run_body (\<lambda>c. Panics (PanicError (ErrorString ''index out of range'')) :: (error option, string) outcome)
              ?c ?args = Panics (PanicError (ErrorString ''index out of range''))"
    by (simp add: Run_body_def)
  from Run_recovers_panic [of demo_gtext id "''1''" "''main.main()''" "\<lambda>c. Panics (PanicOther ''boom'')"
      ?c ?args _ "''boom''", THEN conjunct2, THEN conjunct2, THEN conjunct1, THEN mp, OF h1]
    Run_recovers_panic [of demo_gtext id "''1''" "''main.main()''"
      "\<lambda>c. Panics (PanicError (ErrorString ''index out of range''))"
      ?c ?args "ErrorString ''index out of range''", THEN conjunct2, THEN conjunct1, THEN mp, OF h2]
  show ?thesis
    by (simp add: wrapPanic_def debug_Stack_def)
qed

text \<open>
  C3, the claim as stated fails: a run that panics with the value \<open>nil\<close> makes \<open>Run\<close>
  return \<open>nil\<close>, not an error.
\<close>

theorem Run_nil_panic_returns_nil:
  "Run demo_gtext id (debug_Stack ''1'' ''main.main()'') (\<lambda>c. Panics PanicNil)
      \<lparr>Command_args = []\<rparr> [''gqlc'', ''a.gql''] = Returns None"
  by (simp add: Run_def Run_body_def)


section \<open>Properties of the compiler driver\<close>


lemma parseFiles_parsedDocs:
  "parseFiles E mode args dset err docs =
     (case parsedDocs E mode args dset of
        Inl e \<Rightarrow> Inl e
      | Inr ds \<Rightarrow> Inr (if ds = [] then err else None, fold (\<lambda>d. AList.update (Name d) d) ds docs))"
  by (induction args arbitrary: dset err docs) (auto split: sum.splits prod.splits)

lemma runDocs_calls:
  "runDocs E g ds err w = (err', returned, w', calls) \<Longrightarrow>
     prefix calls (map (Pair g) ds) \<and>
     (returned \<longrightarrow> err' \<noteq> None) \<and>
     (\<not> returned \<longrightarrow> calls = map (Pair g) ds \<and> (err' = None \<or> err' = err))"
proof (induction ds arbitrary: err w err' returned w' calls)
  case Nil
  then show ?case by simp
next
  case (Cons d ds)
  obtain r w1 where g: "CodeGenerator_Generate E g d [] w = (r, w1)"
    by (cases "CodeGenerator_Generate E g d [] w") auto
  show ?case
  proof (cases r)
    case (Some e)
    with g Cons.prems show ?thesis by auto
  next
    case None
    obtain e2 r2 w2 c2 where rest: "runDocs E g ds None w1 = (e2, r2, w2, c2)"
      by (cases "runDocs E g ds None w1") auto
    from Cons.IH [OF rest] None g rest Cons.prems show ?thesis
      by auto
  qed
qed

lemma runGenerators_calls:
  "runGenerators E rng i gs docs err w = (err', w', calls) \<Longrightarrow>
     prefix calls (allCalls rng i gs docs) \<and>
     (err' = None \<or> err' = err \<longrightarrow> err = None \<longrightarrow> calls = allCalls rng i gs docs)"
proof (induction gs arbitrary: i err w err' w' calls)
  case Nil
  then show ?case by simp
next
  case (Cons g gs)
  obtain e1 r1 w1 c1 where one: "runDocs E g (map snd (rng i docs)) err w = (e1, r1, w1, c1)"
    by (cases "runDocs E g (map snd (rng i docs)) err w") auto
  note d = runDocs_calls [OF one]
  show ?case
  proof (cases r1)
    case True
    with one d Cons.prems show ?thesis
      by (auto intro: prefix_order.trans)
  next
    case False
    obtain e2 w2 c2 where rest: "runGenerators E rng (Suc i) gs docs e1 w1 = (e2, w2, c2)"
      by (cases "runGenerators E rng (Suc i) gs docs e1 w1") auto
    from Cons.IH [OF rest] False one d rest Cons.prems show ?thesis
      by auto
  qed
qed

text \<open>
  C1. With one input file, the generator \<open>doc\<close> selected and a type checker that
  reports one diagnostic, \<open>runRoot\<close> calls no generator and returns \<open>nil\<close>: the
  \<open>return\<close> after the check leaves the named result untouched.
\<close>

theorem runRoot_check_errors_nil:
  "runRoot (demo_root [ErrorString ''undefined type: Foo''] id) (\<lambda>i. id)
     [\<lparr>Flag_Name = ''doc_out'', Changed = True\<rparr>] [''a.gql''] [] = (None, [], [])"
  by (simp add: runRoot_def LocalFlags_VisitAll_def demo_root_def)





lemma find_app:
  "find P (xs @ ys) = (case find P xs of None \<Rightarrow> find P ys | Some x \<Rightarrow> Some x)"
  by (induction xs) auto

lemma lastNamed_Cons:
  "lastNamed (d # ds) n =
     (case lastNamed ds n of None \<Rightarrow> (if Name d = n then Some d else None) | Some x \<Rightarrow> Some x)"
  by (simp add: lastNamed_def find_app split: option.splits)

lemma find_Some_mem: "find P xs = Some x \<Longrightarrow> P x \<and> x \<in> set xs"
  by (induction xs) (auto split: if_splits)

lemma lastNamed_Some: "lastNamed ds n = Some d \<Longrightarrow> Name d = n \<and> d \<in> set ds"
  using find_Some_mem [of "\<lambda>d. Name d = n" "rev ds" d] by (simp add: lastNamed_def)

lemma fold_update_map_of:
  "map_of (fold (\<lambda>d. AList.update (Name d) d) ds docs) n =
     (case lastNamed ds n of None \<Rightarrow> map_of docs n | Some d \<Rightarrow> Some d)"
proof (induction ds arbitrary: docs)
  case Nil
  then show ?case by (simp add: lastNamed_def)
next
  case (Cons d ds)
  show ?case
    by (simp add: Cons.IH lastNamed_Cons AList.update_conv' split: option.splits)
qed

lemma fold_update_distinct:
  "distinct (map fst docs) \<Longrightarrow> distinct (map fst (fold (\<lambda>d. AList.update (Name d) d) ds docs))"
  by (induction ds arbitrary: docs) (simp_all add: AList.distinct_update)

lemma lastNamed_later:
  assumes "i < j" and "j < length ds" and "Name (ds ! j) = n" and "lastNamed ds n = Some d"
  shows "d \<in> set (drop (Suc i) ds)"
proof -
  have mem: "ds ! j \<in> set (drop (Suc i) ds)"
    using assms(1,2) by (auto simp: in_set_conv_nth intro!: exI [of _ "j - Suc i"])
  have "find (\<lambda>d. Name d = n) (rev (drop (Suc i) ds)) \<noteq> None"
    using mem assms(3) by (auto simp: find_None_iff)
  then obtain x where x: "find (\<lambda>d. Name d = n) (rev (drop (Suc i) ds)) = Some x"
    by auto
  have "rev ds = rev (drop (Suc i) ds) @ rev (take (Suc i) ds)"
    by (metis append_take_drop_id rev_append)
  then have "lastNamed ds n = Some x"
    using x by (simp add: lastNamed_def find_app)
  with assms(4) have "d = x" by simp
  moreover have "x \<in> set (rev (drop (Suc i) ds))"
    using find_Some_mem [OF x] by simp
  ultimately show ?thesis by simp
qed

lemma allCalls_docs:
  assumes "\<forall>i xs. mset (rng i xs) = mset xs"
  shows "c \<in> set (allCalls rng i gs docs) \<Longrightarrow> snd c \<in> snd ` set docs"
proof (induction gs arbitrary: i)
  case Nil
  then show ?case by simp
next
  case (Cons g gs)
  have "set (rng i docs) = set docs"
    using assms by (metis set_mset_mset)
  with Cons show ?case by (auto simp: image_iff) force
qed

lemma runRoot_calls_docs:
  assumes "\<forall>i xs. mset (rng i xs) = mset xs"
      and "c \<in> set (snd (snd (runRoot E rng flags args w)))"
  shows "\<exists>err docs. parseFiles E (fst (selectGenerators E flags (NoMode, []))) args (NewDocSet E) None []
                       = Inr (err, docs) \<and> snd c \<in> snd ` set docs"
proof -
  obtain mode gs where sel: "selectGenerators E flags (NoMode, []) = (mode, gs)"
    by (cases "selectGenerators E flags (NoMode, [])") auto
  show ?thesis
  proof (cases "parseFiles E mode args (NewDocSet E) None []")
    case (Inl e)
    with sel assms(2) show ?thesis by (simp add: runRoot_def LocalFlags_VisitAll_def)
  next
    case (Inr p)
    obtain err docs where p: "p = (err, docs)" by (cases p) auto
    show ?thesis
    proof (cases "util_CheckTypes E docs = []")
      case False
      with sel Inr p assms(2) show ?thesis by (simp add: runRoot_def LocalFlags_VisitAll_def)
    next
      case True
      obtain e2 w2 calls where run: "runGenerators E rng 0 gs docs err w = (e2, w2, calls)"
        by (cases "runGenerators E rng 0 gs docs err w") auto
      with sel Inr p True assms(2) have "c \<in> set calls"
        by (simp add: runRoot_def LocalFlags_VisitAll_def)
      moreover have "prefix calls (allCalls rng 0 gs docs)"
        using runGenerators_calls [OF run] by simp
      ultimately have "c \<in> set (allCalls rng 0 gs docs)"
        using set_mono_prefix by blast
      then have "snd c \<in> snd ` set docs"
        by (rule allCalls_docs [OF assms(1)])
      with sel Inr p show ?thesis by simp
    qed
  qed
qed

text \<open>
  C9. When every file parses, to the documents \<open>ds\<close> in the order of the arguments, the
  parse loop ends without error with a map that holds, under each name, the last
  document of \<open>ds\<close> with that name. Every document given to a generator is the last one
  of its name; a document followed by another of the same name (and not equal to a later
  document) is given to no generator.
\<close>

theorem runRoot_last_same_named_wins:
  assumes "\<forall>i xs. mset (rng i xs) = mset xs"
      and "parsedDocs E (fst (selectGenerators E flags (NoMode, []))) args (NewDocSet E) = Inr ds"
  shows "(\<exists>docs. parseFiles E (fst (selectGenerators E flags (NoMode, []))) args (NewDocSet E) None []
                   = Inr (None, docs) \<and>
                 distinct (map fst docs) \<and> (\<forall>n. map_of docs n = lastNamed ds n)) \<and>
         (\<forall>c\<in>set (snd (snd (runRoot E rng flags args w))).
            lastNamed ds (Name (snd c)) = Some (snd c)) \<and>
         (\<forall>i j. i < j \<and> j < length ds \<and> Name (ds ! i) = Name (ds ! j) \<and>
                ds ! i \<notin> set (drop (Suc i) ds) \<longrightarrow>
            (\<forall>c\<in>set (snd (snd (runRoot E rng flags args w))). snd c \<noteq> ds ! i))"
proof -
  let ?mode = "fst (selectGenerators E flags (NoMode, []))"
  let ?docs = "fold (\<lambda>d. AList.update (Name d) d) ds []"
  have parse: "parseFiles E ?mode args (NewDocSet E) None [] = Inr (None, ?docs)"
    using assms(2) by (simp add: parseFiles_parsedDocs)
  have dist: "distinct (map fst ?docs)"
    by (rule fold_update_distinct) simp
  have look: "map_of ?docs n = lastNamed ds n" for n
    by (simp add: fold_update_map_of split: option.splits)
  have last: "lastNamed ds (Name (snd c)) = Some (snd c)"
    if "c \<in> set (snd (snd (runRoot E rng flags args w)))" for c
  proof -
    from runRoot_calls_docs [OF assms(1) that] parse
    have "snd c \<in> snd ` set ?docs" by auto
    then obtain k where "(k, snd c) \<in> set ?docs" by force
    with dist have "map_of ?docs k = Some (snd c)" by simp
    with look have l: "lastNamed ds k = Some (snd c)" by simp
    with lastNamed_Some [OF l] show ?thesis by simp
  qed
  have never: "snd c \<noteq> ds ! i"
    if "i < j" "j < length ds" "Name (ds ! i) = Name (ds ! j)" "ds ! i \<notin> set (drop (Suc i) ds)"
      and c: "c \<in> set (snd (snd (runRoot E rng flags args w)))" for i j c
  proof
    assume eq: "snd c = ds ! i"
    with last [OF c] have "lastNamed ds (Name (ds ! j)) = Some (ds ! i)"
      using that(3) by simp
    from lastNamed_later [OF that(1) that(2) refl this] that(4) show False by simp
  qed
  from parse dist look last never show ?thesis
    by blast
qed

theorem runRoot_last_same_named_wins_witness:
  "runRoot (demo_root [] (\<lambda>n. ''schema'')) (\<lambda>i. id) [\<lparr>Flag_Name = ''doc_out'', Changed = True\<rparr>]
       [''a.gql'', ''b.gql''] []
     = (None, [(''doc'', ''schema'')], [(''doc'', \<lparr>Name = ''schema'', Types = [''/b.gql'']\<rparr>)]) \<and>
   \<lparr>Name = ''schema'', Types = [''/a.gql'']\<rparr>
     \<notin> snd ` set (snd (snd (runRoot (demo_root [] (\<lambda>n. ''schema'')) (\<lambda>i. id)
                          [\<lparr>Flag_Name = ''doc_out'', Changed = True\<rparr>] [''a.gql'', ''b.gql''] [])))"
proof -
  let ?E = "demo_root [] (\<lambda>n. ''schema'')"
  let ?flags = "[\<lparr>Flag_Name = ''doc_out'', Changed = True\<rparr>]"
  let ?ds = "[\<lparr>Name = ''schema'', Types = [''/a.gql'']\<rparr>, \<lparr>Name = ''schema'', Types = [''/b.gql'']\<rparr>]"
  have h1: "\<forall>i xs. mset ((\<lambda>i. id) i xs) = mset (xs :: (string \<times> Document) list)"
    by simp
  have h2: "parsedDocs ?E (fst (selectGenerators ?E ?flags (NoMode, []))) [''a.gql'', ''b.gql'']
              (NewDocSet ?E) = Inr ?ds"
    by (simp add: demo_root_def)
  have h3: "(0::nat) < 1 \<and> 1 < length ?ds \<and> Name (?ds ! 0) = Name (?ds ! 1) \<and>
            ?ds ! 0 \<notin> set (drop (Suc 0) ?ds)"
    by simp
  have "\<forall>c\<in>set (snd (snd (runRoot ?E (\<lambda>i. id) ?flags [''a.gql'', ''b.gql''] []))). snd c \<noteq> ?ds ! 0"
    using runRoot_last_same_named_wins [OF h1 h2, of "[]", THEN conjunct2, THEN conjunct2,
        THEN spec, THEN spec, THEN mp, OF h3] .
  then have "?ds ! 0 \<notin> snd ` set (snd (snd (runRoot ?E (\<lambda>i. id) ?flags [''a.gql'', ''b.gql''] [])))"
    unfolding image_iff by (intro notI) (erule bexE, drule (1) bspec, simp)
  moreover have "runRoot ?E (\<lambda>i. id) ?flags [''a.gql'', ''b.gql''] []
     = (None, [(''doc'', ''schema'')], [(''doc'', \<lparr>Name = ''schema'', Types = [''/b.gql'']\<rparr>)])"
    by (simp add: runRoot_def LocalFlags_VisitAll_def demo_root_def)
  ultimately show ?thesis by simp
qed

end
